theory Spec2Isabelle
  imports Complex_Main
begin

section \<open>The stock dashboard script (good.py)\<close>

text \<open>
  The program is one script that is executed from top to bottom on every interaction.
  It reads five inputs from sidebar widgets, calls \<^verbatim>\<open>yf.download\<close> once when at least
  one symbol is selected, and renders a sequence of page elements.  The model below is a
  function from the inputs and the downloader to the trace of a run: the elements
  rendered in order, the download calls made, and the exception that stopped the script,
  if any.

  Conventions of the embedding.
  \<^item> A float64 cell is a \<open>rat option\<close>: \<open>None\<close> is NaN, \<open>Some q\<close> an exact
    number.  Rounding error and infinities are not represented; a division by zero
    (which float64 answers with an infinity or NaN) yields \<open>None\<close>.
  \<^item> \<^verbatim>\<open>all_data\<close> is a partial map from ticker to that ticker's frame, a list of rows
    in index order (the index of the frames the service returns is chronological);
    \<^verbatim>\<open>all_data[sym]\<close> raises \<^verbatim>\<open>KeyError\<close> outside the domain.  The frames of one
    download share their index, and a ticker without data on a day has NaN cells in that
    day's row; nothing below depends on the frames having equal length.
  \<^item> Every place of the script that can raise is a branch returning \<open>Inl\<close>.
  \<^item> The labels of the script start with pictographs outside ASCII; the strings below
    keep the text after them.
\<close>

subsection \<open>Values, rows and errors\<close>

type_synonym date = int
type_synonym cell = "rat option"

datatype py_error = KeyError | IndexError | ValueError | DownloadError

record ohlcv =
  Date :: date
  Open :: cell
  High :: cell
  Low :: cell
  Close :: cell
  Volume :: cell

type_synonym frame = "ohlcv list"
type_synonym all_data = "string \<Rightarrow> frame option"

text \<open>\<^verbatim>\<open>all_data[sym]\<close>\<close>

definition getitem :: "all_data \<Rightarrow> string \<Rightarrow> py_error + frame" where
  "getitem all_data symb = (case all_data symb of None \<Rightarrow> Inl KeyError | Some df \<Rightarrow> Inr df)"

text \<open>\<^verbatim>\<open>df.iloc[-1]\<close>: the last row, \<^verbatim>\<open>IndexError\<close> on a frame without rows.\<close>

definition iloc_last :: "frame \<Rightarrow> py_error + ohlcv" where
  "iloc_last df = (if df = [] then Inl IndexError else Inr (last df))"

text \<open>
  \<^verbatim>\<open>round(v, 2)\<close>: to the nearest multiple of 1/100, ties to the even neighbour;
  NaN stays NaN.
\<close>

definition round_half_even :: "rat \<Rightarrow> int" where
  "round_half_even q =
     (let f = \<lfloor>q\<rfloor>; d = q - of_int f
      in if d < 1 / 2 then f else if 1 / 2 < d then f + 1 else if even f then f else f + 1)"

definition py_round2 :: "cell \<Rightarrow> cell" where
  "py_round2 v = (case v of None \<Rightarrow> None | Some q \<Rightarrow> Some (of_int (round_half_even (q * 100)) / 100))"

text \<open>\<^verbatim>\<open>int(v)\<close>: truncation towards zero, \<^verbatim>\<open>ValueError\<close> on NaN.\<close>

definition py_int :: "cell \<Rightarrow> py_error + int" where
  "py_int v = (case v of None \<Rightarrow> Inl ValueError
                | Some q \<Rightarrow> Inr (if 0 \<le> q then \<lfloor>q\<rfloor> else \<lceil>q\<rceil>))"

text \<open>
  A loop or comprehension over the symbols whose body may raise: the first exception
  ends it.
\<close>

fun traverse :: "('a \<Rightarrow> py_error + 'b) \<Rightarrow> 'a list \<Rightarrow> py_error + 'b list" where
  "traverse f [] = Inr []"
| "traverse f (a # as) =
     (case f a of
        Inl e \<Rightarrow> Inl e
      | Inr b \<Rightarrow> (case traverse f as of Inl e \<Rightarrow> Inl e | Inr bs \<Rightarrow> Inr (b # bs)))"

subsection \<open>Raw data preview and CSV export (lines 56 to 67)\<close>

record tagged = ohlcv +
  Symbol :: string


definition assign_Symbol :: "string \<Rightarrow> frame \<Rightarrow> tagged list" where
  "assign_Symbol symb df =
     map (\<lambda>r. \<lparr>Date = Date r, Open = Open r, High = High r, Low = Low r,
                Close = Close r, Volume = Volume r, Symbol = symb\<rparr>) df"

text \<open>\<^verbatim>\<open>pd.concat(objs)\<close> raises \<^verbatim>\<open>ValueError\<close> when there is nothing to concatenate.\<close>

definition pd_concat :: "'a list list \<Rightarrow> py_error + 'a list" where
  "pd_concat objs = (if objs = [] then Inl ValueError else Inr (concat objs))"

definition preview_data :: "all_data \<Rightarrow> string list \<Rightarrow> py_error + tagged list" where
  "preview_data all_data syms =
     (case traverse (\<lambda>symb. case getitem all_data symb of
                              Inl e \<Rightarrow> Inl e
                            | Inr df \<Rightarrow> Inr (assign_Symbol symb df)) syms of
        Inl e \<Rightarrow> Inl e
      | Inr dfs \<Rightarrow> pd_concat dfs)"

text \<open>\<^verbatim>\<open>df.head(n)\<close>\<close>

definition head_df :: "nat \<Rightarrow> 'a list \<Rightarrow> 'a list" where
  "head_df n df = take n df"

text \<open>
  \<^verbatim>\<open>df.to_csv(index=...)\<close>.  How a float, a volume and an index value are printed is
  the library's business and is a parameter.  A field is quoted when it contains the
  separator, a quote or a line break; records are joined by commas and each ends with a
  newline.  With \<open>index\<close> the index value is the first field of every record and the
  header starts with the index name.  The index name \<^verbatim>\<open>Date\<close> and the order of the
  price columns are those of the frames the service returns.
\<close>

record csv_format =
  fmt_float :: "cell \<Rightarrow> string"
  fmt_volume :: "cell \<Rightarrow> string"
  fmt_date :: "date \<Rightarrow> string"

definition csv_quote :: "string \<Rightarrow> string" where
  "csv_quote s =
     (if list_ex (\<lambda>c. c = CHR '','' \<or> c = CHR ''\"'' \<or> c = CHR 0x0A \<or> c = CHR 0x0D) s
      then ''\"'' @ concat (map (\<lambda>c. if c = CHR ''\"'' then ''\"\"'' else [c]) s) @ ''\"''
      else s)"

fun join_fields :: "string list \<Rightarrow> string" where
  "join_fields [] = []"
| "join_fields [f] = f"
| "join_fields (f # g # fs) = f @ '','' @ join_fields (g # fs)"

definition csv_header :: "bool \<Rightarrow> string list" where
  "csv_header index =
     (if index then [''Date''] else []) @
     [''Open'', ''High'', ''Low'', ''Close'', ''Volume'', ''Symbol'']"

definition csv_record :: "csv_format \<Rightarrow> bool \<Rightarrow> tagged \<Rightarrow> string list" where
  "csv_record fmt index r =
     (if index then [fmt_date fmt (Date r)] else []) @
     [fmt_float fmt (Open r), fmt_float fmt (High r), fmt_float fmt (Low r),
      fmt_float fmt (Close r), fmt_volume fmt (Volume r), Symbol r]"

definition csv_records :: "csv_format \<Rightarrow> bool \<Rightarrow> tagged list \<Rightarrow> string list list" where
  "csv_records fmt index df = csv_header index # map (csv_record fmt index) df"

definition to_csv :: "csv_format \<Rightarrow> bool \<Rightarrow> tagged list \<Rightarrow> string" where
  "to_csv fmt index df =
     concat (map (\<lambda>fs. join_fields (map csv_quote fs) @ [CHR 0x0A]) (csv_records fmt index df))"

text \<open>
  \<^verbatim>\<open>s.encode('utf-8')\<close> on a text whose code points are below 256 (a HOL character):
  one byte below 128, two bytes above.
\<close>

definition utf8_char :: "char \<Rightarrow> nat list" where
  "utf8_char c =
     (let n = (of_char c :: nat)
      in if n < 128 then [n] else [192 + n div 64, 128 + n mod 64])"

definition encode_utf8 :: "string \<Rightarrow> nat list" where
  "encode_utf8 s = concat (map utf8_char s)"

subsection \<open>Charts (lines 69 to 121)\<close>

text \<open>A \<^verbatim>\<open>go.Scatter\<close> trace and a figure with the layout the script sets.\<close>

record trace =
  trace_x :: "date list"
  trace_y :: "cell list"
  trace_mode :: string
  trace_stackgroup :: "string option"
  trace_name :: string

record figure =
  fig_traces :: "trace list"
  fig_title :: string
  fig_xaxis_title :: string
  fig_yaxis_title :: string

text \<open>
  The three price and volume charts share one loop shape: for every symbol, in order,
  \<^verbatim>\<open>add_trace\<close> of the symbol's index against one column.
\<close>

definition column_traces ::
  "all_data \<Rightarrow> string list \<Rightarrow> (ohlcv \<Rightarrow> cell) \<Rightarrow> string \<Rightarrow> string option \<Rightarrow> py_error + trace list"
where
  "column_traces all_data syms col md sg =
     traverse (\<lambda>symb. case getitem all_data symb of
                         Inl e \<Rightarrow> Inl e
                       | Inr df \<Rightarrow> Inr \<lparr>trace_x = map Date df, trace_y = map col df,
                                       trace_mode = md, trace_stackgroup = sg,
                                       trace_name = symb\<rparr>) syms"

definition fig_open :: "all_data \<Rightarrow> string list \<Rightarrow> py_error + figure" where
  "fig_open all_data syms =
     (case column_traces all_data syms Open ''lines'' None of
        Inl e \<Rightarrow> Inl e
      | Inr ts \<Rightarrow> Inr \<lparr>fig_traces = ts, fig_title = ''Opening Price Over Time'',
                      fig_xaxis_title = ''Date'', fig_yaxis_title = ''Opening Price (USD)''\<rparr>)"

definition fig_close :: "all_data \<Rightarrow> string list \<Rightarrow> py_error + figure" where
  "fig_close all_data syms =
     (case column_traces all_data syms Close ''lines+markers'' None of
        Inl e \<Rightarrow> Inl e
      | Inr ts \<Rightarrow> Inr \<lparr>fig_traces = ts, fig_title = ''Closing Price Over Time'',
                      fig_xaxis_title = ''Date'', fig_yaxis_title = ''Closing Price (USD)''\<rparr>)"

definition fig_vol :: "all_data \<Rightarrow> string list \<Rightarrow> py_error + figure" where
  "fig_vol all_data syms =
     (case column_traces all_data syms Volume ''lines'' (Some ''one'') of
        Inl e \<Rightarrow> Inl e
      | Inr ts \<Rightarrow> Inr \<lparr>fig_traces = ts, fig_title = ''Volume Traded Over Time'',
                      fig_xaxis_title = ''Date'', fig_yaxis_title = ''Volume''\<rparr>)"

text \<open>
  Float arithmetic on cells: NaN propagates.  \<^verbatim>\<open>Series.pct_change()\<close> computes
  \<^verbatim>\<open>data / data.shift(1) - 1\<close>, where \<^verbatim>\<open>data\<close> is the series itself or, in the pandas
  versions whose default fill method is \<^verbatim>\<open>pad\<close>, the series with every NaN replaced by
  the last number before it.  The script does not pin the version, so the fill is a
  parameter.
\<close>

definition fdiv :: "cell \<Rightarrow> cell \<Rightarrow> cell" where
  "fdiv a b = (case (a, b) of
                 (Some p, Some q) \<Rightarrow> if q = 0 then None else Some (p / q)
               | _ \<Rightarrow> None)"

definition fsub :: "cell \<Rightarrow> cell \<Rightarrow> cell" where
  "fsub a b = (case (a, b) of (Some p, Some q) \<Rightarrow> Some (p - q) | _ \<Rightarrow> None)"

definition fmul :: "cell \<Rightarrow> cell \<Rightarrow> cell" where
  "fmul a b = (case (a, b) of (Some p, Some q) \<Rightarrow> Some (p * q) | _ \<Rightarrow> None)"

fun ffill_from :: "cell \<Rightarrow> cell list \<Rightarrow> cell list" where
  "ffill_from prev [] = []"
| "ffill_from prev (None # cs) = prev # ffill_from prev cs"
| "ffill_from prev (Some q # cs) = Some q # ffill_from (Some q) cs"

definition ffill :: "cell list \<Rightarrow> cell list" where
  "ffill cs = ffill_from None cs"

definition shift1 :: "cell list \<Rightarrow> cell list" where
  "shift1 cs = (if cs = [] then [] else None # butlast cs)"

definition pct_change :: "bool \<Rightarrow> cell list \<Rightarrow> cell list" where
  "pct_change pad cs =
     (let data = (if pad then ffill cs else cs)
      in map (\<lambda>(a, b). fsub (fdiv a b) (Some 1)) (zip data (shift1 data)))"

text \<open>Line 113: \<^verbatim>\<open>all_data[sym]["Close"].pct_change() * 100\<close>.\<close>

definition pct_change_100 :: "bool \<Rightarrow> frame \<Rightarrow> cell list" where
  "pct_change_100 pad df = map (\<lambda>v. fmul v (Some 100)) (pct_change pad (map Close df))"

definition pct_traces :: "bool \<Rightarrow> all_data \<Rightarrow> string list \<Rightarrow> py_error + trace list" where
  "pct_traces pad all_data syms =
     traverse (\<lambda>symb. case getitem all_data symb of
                         Inl e \<Rightarrow> Inl e
                       | Inr df \<Rightarrow> Inr \<lparr>trace_x = map Date df, trace_y = pct_change_100 pad df,
                                       trace_mode = ''lines'', trace_stackgroup = None,
                                       trace_name = symb\<rparr>) syms"

definition fig_pct :: "bool \<Rightarrow> all_data \<Rightarrow> string list \<Rightarrow> py_error + figure" where
  "fig_pct pad all_data syms =
     (case pct_traces pad all_data syms of
        Inl e \<Rightarrow> Inl e
      | Inr ts \<Rightarrow> Inr \<lparr>fig_traces = ts, fig_title = ''Daily Percentage Change'',
                      fig_xaxis_title = ''Date'', fig_yaxis_title = ''Change (%)''\<rparr>)"

subsection \<open>Latest snapshot table (lines 123 to 144)\<close>

text \<open>
  \<^verbatim>\<open>latest_data\<close> is a dictionary of six columns, each a list that the loop appends to.
  An exception inside the body leaves the loop, and the dictionary is not used again.
\<close>

record latest_data =
  col_Symbol :: "string list"
  col_Latest_Price :: "cell list"
  col_Opening_Price :: "cell list"
  col_High :: "cell list"
  col_Low :: "cell list"
  col_Volume :: "int list"

definition latest_data_init :: latest_data where
  "latest_data_init =
     \<lparr>col_Symbol = [], col_Latest_Price = [], col_Opening_Price = [],
      col_High = [], col_Low = [], col_Volume = []\<rparr>"

fun latest_data_loop :: "all_data \<Rightarrow> string list \<Rightarrow> latest_data \<Rightarrow> py_error + latest_data" where
  "latest_data_loop all_data [] ld = Inr ld"
| "latest_data_loop all_data (symb # syms) ld =
     (case getitem all_data symb of
        Inl e \<Rightarrow> Inl e
      | Inr df \<Rightarrow>
          (case iloc_last df of
             Inl e \<Rightarrow> Inl e
           | Inr latest_row \<Rightarrow>
               (case py_int (Volume latest_row) of
                  Inl e \<Rightarrow> Inl e
                | Inr vol \<Rightarrow>
                    latest_data_loop all_data syms
                      \<lparr>col_Symbol = col_Symbol ld @ [symb],
                       col_Latest_Price = col_Latest_Price ld @ [py_round2 (Close latest_row)],
                       col_Opening_Price = col_Opening_Price ld @ [py_round2 (Open latest_row)],
                       col_High = col_High ld @ [py_round2 (High latest_row)],
                       col_Low = col_Low ld @ [py_round2 (Low latest_row)],
                       col_Volume = col_Volume ld @ [vol]\<rparr>)))"

text \<open>
  \<^verbatim>\<open>pd.DataFrame(latest_data)\<close>: row \<open>i\<close> takes entry \<open>i\<close> of every column;
  \<^verbatim>\<open>ValueError\<close> when the columns differ in length.
\<close>

record snapshot_row =
  snap_Symbol :: string
  snap_Latest_Price :: cell
  snap_Opening_Price :: cell
  snap_High :: cell
  snap_Low :: cell
  snap_Volume :: int

definition DataFrame :: "latest_data \<Rightarrow> py_error + snapshot_row list" where
  "DataFrame ld =
     (let n = length (col_Symbol ld)
      in if length (col_Latest_Price ld) = n \<and> length (col_Opening_Price ld) = n \<and>
            length (col_High ld) = n \<and> length (col_Low ld) = n \<and> length (col_Volume ld) = n
         then Inr (map (\<lambda>i. \<lparr>snap_Symbol = col_Symbol ld ! i,
                              snap_Latest_Price = col_Latest_Price ld ! i,
                              snap_Opening_Price = col_Opening_Price ld ! i,
                              snap_High = col_High ld ! i,
                              snap_Low = col_Low ld ! i,
                              snap_Volume = col_Volume ld ! i\<rparr>) [0..<n])
         else Inl ValueError)"

definition df_latest :: "all_data \<Rightarrow> string list \<Rightarrow> py_error + snapshot_row list" where
  "df_latest all_data syms =
     (case latest_data_loop all_data syms latest_data_init of
        Inl e \<Rightarrow> Inl e
      | Inr ld \<Rightarrow> DataFrame ld)"

text \<open>
  The body of the loop for one symbol, as the row it contributes: the loop appends this
  row's six entries to the six columns, so the table is the list of these rows
  (lemma \<open>df_latest_rows\<close> below).
\<close>

definition snapshot_of :: "all_data \<Rightarrow> string \<Rightarrow> py_error + snapshot_row" where
  "snapshot_of all_data symb =
     (case getitem all_data symb of
        Inl e \<Rightarrow> Inl e
      | Inr df \<Rightarrow>
          (case iloc_last df of
             Inl e \<Rightarrow> Inl e
           | Inr latest_row \<Rightarrow>
               (case py_int (Volume latest_row) of
                  Inl e \<Rightarrow> Inl e
                | Inr vol \<Rightarrow>
                    Inr \<lparr>snap_Symbol = symb,
                         snap_Latest_Price = py_round2 (Close latest_row),
                         snap_Opening_Price = py_round2 (Open latest_row),
                         snap_High = py_round2 (High latest_row),
                         snap_Low = py_round2 (Low latest_row),
                         snap_Volume = vol\<rparr>)))"

subsection \<open>The script\<close>

record download =
  dl_label :: string
  dl_data :: "nat list"
  dl_file_name :: string
  dl_mime :: string

text \<open>
  The page elements the script renders.  The boolean of \<open>Dataframe\<close> and
  \<open>PlotlyChart\<close> is \<^verbatim>\<open>use_container_width\<close>.  The sidebar widgets that only collect
  the inputs are represented by the record of inputs.
\<close>

datatype element =
    Title string
  | Markdown string
  | Success string
  | Subheader string
  | Expander string "element list"
  | Dataframe "tagged list" bool
  | DownloadButton download
  | PlotlyChart figure bool
  | Table "snapshot_row list"
  | Warning string

record inputs =
  symbols :: "string list"
  start_date :: date
  end_date :: date
  dark_mode :: bool
  refresh :: bool

text \<open>
  \<^verbatim>\<open>yf.download(symbols, start=..., end=..., group_by='ticker', auto_adjust=True)\<close>:
  the market data service, a parameter of the run.  It returns the frames or raises.
\<close>

type_synonym downloader = "string list \<Rightarrow> date \<Rightarrow> date \<Rightarrow> py_error + all_data"

record outcome =
  rendered :: "element list"
  fetch_calls :: "(string list \<times> date \<times> date) list"
  error :: "py_error option"

text \<open>
  Lines 52 to 144, the branch taken when symbols are selected and the download has
  returned: the elements rendered, in order, and the exception that ended the script.
\<close>

definition data_block ::
  "csv_format \<Rightarrow> bool \<Rightarrow> all_data \<Rightarrow> string list \<Rightarrow> element list \<times> py_error option"
where
  "data_block fmt pad all_data syms =
     (let r0 = [Success ''Data successfully loaded!'', Subheader ''Raw Data Preview'']
      in case preview_data all_data syms of
           Inl e \<Rightarrow> (r0 @ [Expander ''Click to view raw data'' []], Some e)
         | Inr pv \<Rightarrow>
      (let csv_data = encode_utf8 (to_csv fmt True pv);
           r1 = r0 @ [Expander ''Click to view raw data'' [Dataframe (head_df 20 pv) True],
                      DownloadButton \<lparr>dl_label = ''Download CSV'', dl_data = csv_data,
                                      dl_file_name = ''stock_data.csv'', dl_mime = ''text/csv''\<rparr>,
                      Subheader ''Opening Stock Price Trend'']
       in case fig_open all_data syms of
            Inl e \<Rightarrow> (r1, Some e)
          | Inr fo \<Rightarrow>
      (let r2 = r1 @ [PlotlyChart fo True, Subheader ''Closing Stock Price Trend'']
       in case fig_close all_data syms of
            Inl e \<Rightarrow> (r2, Some e)
          | Inr fc \<Rightarrow>
      (let r3 = r2 @ [PlotlyChart fc True, Subheader ''Daily Volume Traded'']
       in case fig_vol all_data syms of
            Inl e \<Rightarrow> (r3, Some e)
          | Inr fv \<Rightarrow>
      (let r4 = r3 @ [PlotlyChart fv True, Subheader ''Daily % Change in Closing Price'']
       in case fig_pct pad all_data syms of
            Inl e \<Rightarrow> (r4, Some e)
          | Inr fp \<Rightarrow>
      (let r5 = r4 @ [PlotlyChart fp True, Subheader ''Latest Market Snapshot'']
       in case df_latest all_data syms of
            Inl e \<Rightarrow> (r5, Some e)
          | Inr df \<Rightarrow> (r5 @ [Table df], None)))))))"

text \<open>
  The whole script.  \<^verbatim>\<open>dark_mode\<close> (line 40) and \<^verbatim>\<open>refresh\<close> (line 47) are read
  from their widgets and not used again.
\<close>

definition run :: "csv_format \<Rightarrow> bool \<Rightarrow> downloader \<Rightarrow> inputs \<Rightarrow> outcome" where
  "run fmt pad yf_download inp =
     (let top = [Title ''Real-Time Stock Market Dashboard'',
                 Markdown ''View real-time stock prices with interactive *Opening/Closing price trends, **volume*, and more!'']
      in if symbols inp \<noteq> [] then
           (let call = (symbols inp, start_date inp, end_date inp)
            in case yf_download (symbols inp) (start_date inp) (end_date inp) of
                 Inl e \<Rightarrow> \<lparr>rendered = top, fetch_calls = [call], error = Some e\<rparr>
               | Inr all_data \<Rightarrow>
                   (case data_block fmt pad all_data (symbols inp) of
                      (rs, err) \<Rightarrow> \<lparr>rendered = top @ rs, fetch_calls = [call], error = err\<rparr>))
         else \<lparr>rendered = top @ [Warning ''Please select at least one stock symbol to view data.''],
               fetch_calls = [], error = None\<rparr>)"

subsection \<open>Reading a run\<close>

text \<open>The elements of each kind in the trace of a run, in order of rendering.\<close>

fun tables_of :: "element \<Rightarrow> snapshot_row list list" where
  "tables_of (Table t) = [t]"
| "tables_of (Expander l es) = concat (map tables_of es)"
| "tables_of _ = []"

fun charts_of :: "element \<Rightarrow> figure list" where
  "charts_of (PlotlyChart f w) = [f]"
| "charts_of (Expander l es) = concat (map charts_of es)"
| "charts_of _ = []"

fun dataframes_of :: "element \<Rightarrow> tagged list list" where
  "dataframes_of (Dataframe df w) = [df]"
| "dataframes_of (Expander l es) = concat (map dataframes_of es)"
| "dataframes_of _ = []"

fun downloads_of :: "element \<Rightarrow> download list" where
  "downloads_of (DownloadButton d) = [d]"
| "downloads_of (Expander l es) = concat (map downloads_of es)"
| "downloads_of _ = []"

fun warnings_of :: "element \<Rightarrow> string list" where
  "warnings_of (Warning m) = [m]"
| "warnings_of (Expander l es) = concat (map warnings_of es)"
| "warnings_of _ = []"

definition snapshot_tables :: "outcome \<Rightarrow> snapshot_row list list" where
  "snapshot_tables out = concat (map tables_of (rendered out))"

definition charts :: "outcome \<Rightarrow> figure list" where
  "charts out = concat (map charts_of (rendered out))"

definition previews :: "outcome \<Rightarrow> tagged list list" where
  "previews out = concat (map dataframes_of (rendered out))"

definition downloads :: "outcome \<Rightarrow> download list" where
  "downloads out = concat (map downloads_of (rendered out))"

definition warnings :: "outcome \<Rightarrow> string list" where
  "warnings out = concat (map warnings_of (rendered out))"

text \<open>The legend of a chart: the names of its traces, in order.\<close>

definition legend :: "figure \<Rightarrow> string list" where
  "legend f = map trace_name (fig_traces f)"


subsection \<open>Sample runs\<close>

text \<open>
  A printing convention, two trading days for two tickers, the same two days when the
  service has nothing for the second ticker (its rows are there with every cell NaN), and
  a date range without a trading day (every frame is empty).
\<close>

definition demo_format :: csv_format where
  "demo_format =
     \<lparr>fmt_float = (\<lambda>v. case v of None \<Rightarrow> [] | Some q \<Rightarrow> ''f''),
      fmt_volume = (\<lambda>v. case v of None \<Rightarrow> [] | Some q \<Rightarrow> ''v''),
      fmt_date = (\<lambda>d. if d = 1 then ''2023-01-03'' else ''2023-01-04'')\<rparr>"

definition aapl_rows :: frame where
  "aapl_rows =
     [\<lparr>Date = 1, Open = Some 99, High = Some 101, Low = Some 98,
       Close = Some 100, Volume = Some 1000\<rparr>,
      \<lparr>Date = 2, Open = Some 100, High = Some (2221 / 20), Low = Some (199 / 2),
       Close = Some 110, Volume = Some 1200\<rparr>]"

definition msft_rows :: frame where
  "msft_rows =
     [\<lparr>Date = 1, Open = Some 250, High = Some 252, Low = Some 249,
       Close = Some 251, Volume = Some 2000\<rparr>,
      \<lparr>Date = 2, Open = Some 251, High = Some 255, Low = Some 250,
       Close = Some (50201 / 200), Volume = Some 2100\<rparr>]"

definition nan_rows :: frame where
  "nan_rows =
     [\<lparr>Date = 1, Open = None, High = None, Low = None, Close = None, Volume = None\<rparr>,
      \<lparr>Date = 2, Open = None, High = None, Low = None, Close = None, Volume = None\<rparr>]"

definition demo_data :: all_data where
  "demo_data = (\<lambda>s. if s = ''AAPL'' then Some aapl_rows
                     else if s = ''MSFT'' then Some msft_rows else None)"

definition gap_data :: all_data where
  "gap_data = (\<lambda>s. if s = ''AAPL'' then Some aapl_rows
                    else if s = ''MSFT'' then Some nan_rows else None)"

definition demo_frames :: "string \<Rightarrow> frame" where
  "demo_frames s = (if s = ''AAPL'' then aapl_rows else msft_rows)"

definition gap_frames :: "string \<Rightarrow> frame" where
  "gap_frames s = (if s = ''AAPL'' then aapl_rows else nan_rows)"

definition empty_data :: all_data where
  "empty_data = (\<lambda>s. if s = ''AAPL'' \<or> s = ''MSFT'' then Some [] else None)"

definition empty_download :: downloader where
  "empty_download syms d1 d2 = Inr empty_data"

definition demo_download :: downloader where
  "demo_download syms d1 d2 = Inr demo_data"

definition gap_download :: downloader where
  "gap_download syms d1 d2 = Inr gap_data"

definition failing_download :: downloader where
  "failing_download syms d1 d2 = Inl DownloadError"

definition other_download :: downloader where
  "other_download syms d1 d2 = (if d2 = 3 then Inr demo_data else Inl DownloadError)"

definition demo_inputs :: inputs where
  "demo_inputs =
     \<lparr>symbols = [''AAPL'', ''MSFT''], start_date = 0, end_date = 3,
      dark_mode = False, refresh = False\<rparr>"

definition swapped_inputs :: inputs where
  "swapped_inputs =
     \<lparr>symbols = [''MSFT'', ''AAPL''], start_date = 0, end_date = 3,
      dark_mode = False, refresh = False\<rparr>"

definition no_selection :: inputs where
  "no_selection =
     \<lparr>symbols = [], start_date = 0, end_date = 3, dark_mode = False, refresh = False\<rparr>"

section \<open>Properties of the stages\<close>

subsection \<open>Loops over the symbols\<close>

lemma traverse_all_Inr:
  "(\<And>a. a \<in> set as \<Longrightarrow> f a = Inr (g a)) \<Longrightarrow> traverse f as = Inr (map g as)"
  by (induction as) simp_all

lemma traverse_Inr_all:
  "traverse f as = Inr bs \<Longrightarrow> list_all2 (\<lambda>a b. f a = Inr b) as bs"
  by (induction as arbitrary: bs) (auto split: sum.splits)

lemma traverse_Inl_ex:
  "traverse f as = Inl e \<Longrightarrow> list_ex (\<lambda>a. f a = Inl e) as"
  by (induction as) (auto split: sum.splits)

lemma getitem_Some: "all_data s = Some df \<Longrightarrow> getitem all_data s = Inr df"
  by (simp add: getitem_def)

lemma getitem_Inr_iff: "getitem all_data s = Inr df \<longleftrightarrow> all_data s = Some df"
  by (simp add: getitem_def split: option.splits)

lemma getitem_Inl_iff: "getitem all_data s = Inl e \<longleftrightarrow> all_data s = None \<and> e = KeyError"
  by (auto simp add: getitem_def split: option.splits)

lemma Symbol_assign: "map Symbol (assign_Symbol s df) = replicate (length df) s"
  by (simp add: assign_Symbol_def comp_def map_replicate_const)


lemma preview_data_present:
  assumes "syms \<noteq> []" and "\<And>s. s \<in> set syms \<Longrightarrow> all_data s = Some (frames s)"
  shows "preview_data all_data syms = Inr (concat (map (\<lambda>s. assign_Symbol s (frames s)) syms))"
proof -
  have "traverse (\<lambda>symb. case getitem all_data symb of Inl e \<Rightarrow> Inl e
                          | Inr df \<Rightarrow> Inr (assign_Symbol symb df)) syms
        = Inr (map (\<lambda>s. assign_Symbol s (frames s)) syms)"
    by (rule traverse_all_Inr) (simp add: assms(2) getitem_Some)
  with assms(1) show ?thesis
    by (simp add: preview_data_def pd_concat_def)
qed

lemma blocks_collapse:
  "distinct xs \<Longrightarrow>
   remdups_adj (concat (map (\<lambda>s. replicate (n s) s) xs)) = filter (\<lambda>s. 0 < n s) xs"
proof (induction xs)
  case Nil
  then show ?case by simp
next
  case (Cons x xs)
  let ?rest = "concat (map (\<lambda>s. replicate (n s) s) xs)"
  from Cons have IH: "remdups_adj ?rest = filter (\<lambda>s. 0 < n s) xs" and nin: "x \<notin> set xs"
    by simp_all
  have sub: "set ?rest \<subseteq> set xs" by auto
  show ?case
  proof (cases "n x = 0")
    case True
    then show ?thesis using IH by simp
  next
    case False
    then have ne: "replicate (n x) x \<noteq> []" by simp
    have "?rest = [] \<or> last (replicate (n x) x) \<noteq> hd ?rest"
    proof (cases "?rest = []")
      case True then show ?thesis by simp
    next
      case False
      then have "hd ?rest \<in> set ?rest" by (rule hd_in_set)
      with sub nin have "hd ?rest \<noteq> x" by auto
      with ne show ?thesis by simp
    qed
    then have "remdups_adj (replicate (n x) x @ ?rest)
               = remdups_adj (replicate (n x) x) @ remdups_adj ?rest"
      by (intro remdups_adj_append') auto
    with False IH show ?thesis by (simp add: remdups_adj_replicate)
  qed
qed

subsection \<open>The snapshot loop, row by row\<close>

lemma latest_data_loop_rows:
  "latest_data_loop all_data syms ld =
     (case traverse (snapshot_of all_data) syms of
        Inl e \<Rightarrow> Inl e
      | Inr rows \<Rightarrow>
          Inr \<lparr>col_Symbol = col_Symbol ld @ map snap_Symbol rows,
               col_Latest_Price = col_Latest_Price ld @ map snap_Latest_Price rows,
               col_Opening_Price = col_Opening_Price ld @ map snap_Opening_Price rows,
               col_High = col_High ld @ map snap_High rows,
               col_Low = col_Low ld @ map snap_Low rows,
               col_Volume = col_Volume ld @ map snap_Volume rows\<rparr>)"
proof (induction syms arbitrary: ld)
  case Nil
  show ?case by simp
next
  case (Cons s syms)
  show ?case
    by (simp add: Cons.IH snapshot_of_def split: sum.splits)
qed

lemma DataFrame_rows:
  "DataFrame \<lparr>col_Symbol = map snap_Symbol rows,
              col_Latest_Price = map snap_Latest_Price rows,
              col_Opening_Price = map snap_Opening_Price rows,
              col_High = map snap_High rows,
              col_Low = map snap_Low rows,
              col_Volume = map snap_Volume rows\<rparr> = Inr rows"
proof -
  have "map (\<lambda>i. \<lparr>snap_Symbol = map snap_Symbol rows ! i,
                   snap_Latest_Price = map snap_Latest_Price rows ! i,
                   snap_Opening_Price = map snap_Opening_Price rows ! i,
                   snap_High = map snap_High rows ! i,
                   snap_Low = map snap_Low rows ! i,
                   snap_Volume = map snap_Volume rows ! i\<rparr>) [0..<length rows] = rows"
    by (rule nth_equalityI) simp_all
  then show ?thesis by (simp add: DataFrame_def Let_def)
qed

lemma df_latest_rows: "df_latest all_data syms = traverse (snapshot_of all_data) syms"
  by (simp add: df_latest_def latest_data_loop_rows latest_data_init_def DataFrame_rows
        split: sum.splits)

lemma snapshot_of_good:
  assumes "all_data s = Some df" and "df \<noteq> []" and "Volume (last df) = Some q"
  shows "snapshot_of all_data s =
           Inr \<lparr>snap_Symbol = s,
                snap_Latest_Price = py_round2 (Close (last df)),
                snap_Opening_Price = py_round2 (Open (last df)),
                snap_High = py_round2 (High (last df)),
                snap_Low = py_round2 (Low (last df)),
                snap_Volume = (if 0 \<le> q then \<lfloor>q\<rfloor> else \<lceil>q\<rceil>)\<rparr>"
  using assms by (simp add: snapshot_of_def getitem_def iloc_last_def py_int_def)

lemma snapshot_of_Inr:
  assumes "snapshot_of all_data s = Inr r"
  shows "\<exists>df q. all_data s = Some df \<and> df \<noteq> [] \<and> Volume (last df) = Some q \<and>
           snap_Symbol r = s \<and>
           snap_Latest_Price r = py_round2 (Close (last df)) \<and>
           snap_Opening_Price r = py_round2 (Open (last df)) \<and>
           snap_High r = py_round2 (High (last df)) \<and>
           snap_Low r = py_round2 (Low (last df)) \<and>
           py_int (Volume (last df)) = Inr (snap_Volume r)"
  using assms
  by (auto simp: snapshot_of_def getitem_def iloc_last_def py_int_def
      split: option.splits if_splits sum.splits)

lemma snapshot_of_empty: "all_data s = Some [] \<Longrightarrow> snapshot_of all_data s = Inl IndexError"
  by (simp add: snapshot_of_def getitem_def iloc_last_def)

lemma snapshot_of_nan:
  "all_data s = Some df \<Longrightarrow> df \<noteq> [] \<Longrightarrow> Volume (last df) = None \<Longrightarrow>
   snapshot_of all_data s = Inl ValueError"
  by (simp add: snapshot_of_def getitem_def iloc_last_def py_int_def)

lemma traverse_Inl_member:
  "a \<in> set as \<Longrightarrow> f a = Inl e \<Longrightarrow> \<exists>e'. traverse f as = Inl e'"
  by (induction as) (auto split: sum.splits)

subsection \<open>Percent change\<close>












subsection \<open>The data block\<close>

lemma column_traces_present:
  assumes "\<And>s. s \<in> set syms \<Longrightarrow> all_data s = Some (frames s)"
  shows "column_traces all_data syms col md sg =
         Inr (map (\<lambda>s. \<lparr>trace_x = map Date (frames s), trace_y = map col (frames s),
                         trace_mode = md, trace_stackgroup = sg, trace_name = s\<rparr>) syms)"
  unfolding column_traces_def
  by (rule traverse_all_Inr) (simp add: assms getitem_Some)

lemma pct_traces_present:
  assumes "\<And>s. s \<in> set syms \<Longrightarrow> all_data s = Some (frames s)"
  shows "pct_traces pad all_data syms =
         Inr (map (\<lambda>s. \<lparr>trace_x = map Date (frames s), trace_y = pct_change_100 pad (frames s),
                         trace_mode = ''lines'', trace_stackgroup = None, trace_name = s\<rparr>) syms)"
  unfolding pct_traces_def
  by (rule traverse_all_Inr) (simp add: assms getitem_Some)

lemma preview_data_Inr_present:
  assumes "preview_data all_data syms = Inr pv" and "s \<in> set syms"
  shows "all_data s \<noteq> None"
proof -
  from assms(1) obtain dfs where
    "traverse (\<lambda>symb. case getitem all_data symb of Inl e \<Rightarrow> Inl e
                        | Inr df \<Rightarrow> Inr (assign_Symbol symb df)) syms = Inr dfs"
    by (auto simp: preview_data_def split: sum.splits)
  then have "list_all2 (\<lambda>a b. (case getitem all_data a of Inl e \<Rightarrow> Inl e
                        | Inr df \<Rightarrow> Inr (assign_Symbol a df)) = Inr b) syms dfs"
    by (rule traverse_Inr_all)
  with assms(2) obtain b where
    "(case getitem all_data s of Inl e \<Rightarrow> Inl e | Inr df \<Rightarrow> Inr (assign_Symbol s df)) = Inr b"
    by (auto simp: list_all2_conv_all_nth in_set_conv_nth)
  then show ?thesis
    by (auto simp: getitem_def split: option.splits)
qed

lemma data_block_preview_fails:
  "preview_data all_data syms = Inl e \<Longrightarrow>
   data_block fmt pad all_data syms =
     ([Success ''Data successfully loaded!'', Subheader ''Raw Data Preview'',
       Expander ''Click to view raw data'' []], Some e)"
  by (simp add: data_block_def)

lemma preview_data_Inl:
  assumes "preview_data all_data syms = Inl e" and "syms \<noteq> []"
  shows "e = KeyError \<and> (\<exists>s \<in> set syms. all_data s = None)"
proof -
  let ?f = "\<lambda>symb. case getitem all_data symb of Inl e \<Rightarrow> Inl e
                       | Inr df \<Rightarrow> Inr (assign_Symbol symb df)"
  have "traverse ?f syms = Inl e"
  proof (cases "traverse ?f syms")
    case (Inl e')
    with assms(1) show ?thesis by (simp add: preview_data_def)
  next
    case (Inr dfs)
    then have "list_all2 (\<lambda>a b. ?f a = Inr b) syms dfs" by (rule traverse_Inr_all)
    then have "length dfs = length syms" by (simp add: list_all2_lengthD)
    with assms(2) have "dfs \<noteq> []" by auto
    with Inr assms(1) show ?thesis by (simp add: preview_data_def pd_concat_def)
  qed
  then have "list_ex (\<lambda>a. ?f a = Inl e) syms" by (rule traverse_Inl_ex)
  then obtain s where "s \<in> set syms" "?f s = Inl e" by (auto simp: list_ex_iff)
  then show ?thesis by (auto simp: getitem_def split: option.splits)
qed

lemma run_fetched:
  assumes "symbols inp \<noteq> []"
    and "yf_download (symbols inp) (start_date inp) (end_date inp) = Inr all_data"
  shows "run fmt pad yf_download inp =
           \<lparr>rendered =
              [Title ''Real-Time Stock Market Dashboard'',
               Markdown ''View real-time stock prices with interactive *Opening/Closing price trends, **volume*, and more!'']
              @ fst (data_block fmt pad all_data (symbols inp)),
            fetch_calls = [(symbols inp, start_date inp, end_date inp)],
            error = snd (data_block fmt pad all_data (symbols inp))\<rparr>"
  using assms by (simp add: run_def Let_def split: prod.splits)

lemma run_stages:
  assumes sel: "symbols inp \<noteq> []"
    and fetched: "yf_download (symbols inp) (start_date inp) (end_date inp) = Inr all_data"
    and stages: "preview_data all_data (symbols inp) = Inr pv"
      "fig_open all_data (symbols inp) = Inr fo" "fig_close all_data (symbols inp) = Inr fc"
      "fig_vol all_data (symbols inp) = Inr fv" "fig_pct pad all_data (symbols inp) = Inr fp"
  shows "previews (run fmt pad yf_download inp) = [head_df 20 pv]"
    and "downloads (run fmt pad yf_download inp) =
           [\<lparr>dl_label = ''Download CSV'', dl_data = encode_utf8 (to_csv fmt True pv),
             dl_file_name = ''stock_data.csv'', dl_mime = ''text/csv''\<rparr>]"
    and "charts (run fmt pad yf_download inp) = [fo, fc, fv, fp]"
    and "warnings (run fmt pad yf_download inp) = []"
    and "snapshot_tables (run fmt pad yf_download inp) =
           (case traverse (snapshot_of all_data) (symbols inp) of
              Inl e \<Rightarrow> [] | Inr rows \<Rightarrow> [rows])"
    and "error (run fmt pad yf_download inp) =
           (case traverse (snapshot_of all_data) (symbols inp) of
              Inl e \<Rightarrow> Some e | Inr rows \<Rightarrow> None)"
    and "fetch_calls (run fmt pad yf_download inp) =
           [(symbols inp, start_date inp, end_date inp)]"
proof -
  have blk: "data_block fmt pad all_data (symbols inp) =
     (case traverse (snapshot_of all_data) (symbols inp) of
        Inl e \<Rightarrow>
          ([Success ''Data successfully loaded!'', Subheader ''Raw Data Preview'',
            Expander ''Click to view raw data'' [Dataframe (head_df 20 pv) True],
            DownloadButton \<lparr>dl_label = ''Download CSV'',
                            dl_data = encode_utf8 (to_csv fmt True pv),
                            dl_file_name = ''stock_data.csv'', dl_mime = ''text/csv''\<rparr>,
            Subheader ''Opening Stock Price Trend'', PlotlyChart fo True,
            Subheader ''Closing Stock Price Trend'', PlotlyChart fc True,
            Subheader ''Daily Volume Traded'', PlotlyChart fv True,
            Subheader ''Daily % Change in Closing Price'', PlotlyChart fp True,
            Subheader ''Latest Market Snapshot''], Some e)
      | Inr df \<Rightarrow>
          ([Success ''Data successfully loaded!'', Subheader ''Raw Data Preview'',
            Expander ''Click to view raw data'' [Dataframe (head_df 20 pv) True],
            DownloadButton \<lparr>dl_label = ''Download CSV'',
                            dl_data = encode_utf8 (to_csv fmt True pv),
                            dl_file_name = ''stock_data.csv'', dl_mime = ''text/csv''\<rparr>,
            Subheader ''Opening Stock Price Trend'', PlotlyChart fo True,
            Subheader ''Closing Stock Price Trend'', PlotlyChart fc True,
            Subheader ''Daily Volume Traded'', PlotlyChart fv True,
            Subheader ''Daily % Change in Closing Price'', PlotlyChart fp True,
            Subheader ''Latest Market Snapshot'', Table df], None))"
    by (simp add: data_block_def Let_def stages df_latest_rows split: sum.splits)
  note r = run_fetched [where yf_download = yf_download and inp = inp, OF sel fetched]
  show "previews (run fmt pad yf_download inp) = [head_df 20 pv]"
    by (simp add: r blk previews_def split: sum.splits)
  show "downloads (run fmt pad yf_download inp) =
           [\<lparr>dl_label = ''Download CSV'', dl_data = encode_utf8 (to_csv fmt True pv),
             dl_file_name = ''stock_data.csv'', dl_mime = ''text/csv''\<rparr>]"
    by (simp add: r blk downloads_def split: sum.splits)
  show "charts (run fmt pad yf_download inp) = [fo, fc, fv, fp]"
    by (simp add: r blk charts_def split: sum.splits)
  show "warnings (run fmt pad yf_download inp) = []"
    by (simp add: r blk warnings_def split: sum.splits)
  show "snapshot_tables (run fmt pad yf_download inp) =
           (case traverse (snapshot_of all_data) (symbols inp) of
              Inl e \<Rightarrow> [] | Inr rows \<Rightarrow> [rows])"
    by (simp add: r blk snapshot_tables_def split: sum.splits)
  show "error (run fmt pad yf_download inp) =
           (case traverse (snapshot_of all_data) (symbols inp) of
              Inl e \<Rightarrow> Some e | Inr rows \<Rightarrow> None)"
    by (simp add: r blk split: sum.splits)
  show "fetch_calls (run fmt pad yf_download inp) =
           [(symbols inp, start_date inp, end_date inp)]"
    by (simp add: r)
qed

lemma run_absent:
  assumes sel: "symbols inp \<noteq> []"
    and fetched: "yf_download (symbols inp) (start_date inp) (end_date inp) = Inr all_data"
    and absent: "s \<in> set (symbols inp)" "all_data s = None"
  shows "error (run fmt pad yf_download inp) = Some KeyError"
    and "previews (run fmt pad yf_download inp) = []"
    and "downloads (run fmt pad yf_download inp) = []"
    and "charts (run fmt pad yf_download inp) = []"
    and "snapshot_tables (run fmt pad yf_download inp) = []"
proof -
  obtain e where e: "preview_data all_data (symbols inp) = Inl e"
    using preview_data_Inr_present [of all_data "symbols inp" _ s] absent
    by (cases "preview_data all_data (symbols inp)") auto
  with sel have "e = KeyError" using preview_data_Inl by blast
  with e have blk: "data_block fmt pad all_data (symbols inp) =
     ([Success ''Data successfully loaded!'', Subheader ''Raw Data Preview'',
       Expander ''Click to view raw data'' []], Some KeyError)"
    by (simp add: data_block_preview_fails)
  show "error (run fmt pad yf_download inp) = Some KeyError"
    and "previews (run fmt pad yf_download inp) = []"
    and "downloads (run fmt pad yf_download inp) = []"
    and "charts (run fmt pad yf_download inp) = []"
    and "snapshot_tables (run fmt pad yf_download inp) = []"
    by (simp_all add: run_fetched [where yf_download = yf_download and inp = inp, OF sel fetched] blk
        previews_def downloads_def charts_def snapshot_tables_def)
qed

lemma figs_present:
  assumes "\<forall>s \<in> set syms. all_data s = Some (frames s)"
  shows "\<exists>fo fc fv fp.
           fig_open all_data syms = Inr fo \<and> fig_close all_data syms = Inr fc \<and>
           fig_vol all_data syms = Inr fv \<and> fig_pct pad all_data syms = Inr fp \<and>
           legend fo = syms \<and> legend fc = syms \<and> legend fv = syms \<and> legend fp = syms"
proof -
  from assms have pres: "\<And>s. s \<in> set syms \<Longrightarrow> all_data s = Some (frames s)"
    by blast
  show ?thesis
    by (simp add: fig_open_def fig_close_def fig_vol_def fig_pct_def legend_def comp_def
          column_traces_present [where frames = frames, OF pres]
          pct_traces_present [where frames = frames, OF pres])
qed

subsection \<open>What a run renders\<close>





lemma filter_eq_distinct:
  "distinct xs \<Longrightarrow> s \<in> set xs \<Longrightarrow> filter (\<lambda>x. x = s) xs = [s]"
  by (induction xs) (auto simp: filter_empty_conv)

lemma traverse_snapshot_symbols:
  assumes "traverse (snapshot_of all_data) syms = Inr rows"
  shows "map snap_Symbol rows = syms"
proof -
  from assms have "list_all2 (\<lambda>s r. snapshot_of all_data s = Inr r) syms rows"
    by (rule traverse_Inr_all)
  then have "list_all2 (\<lambda>s r. snap_Symbol r = s) syms rows"
    by (rule list_all2_mono) (auto dest: snapshot_of_Inr)
  then show ?thesis
    by (induction rule: list_all2_induct) simp_all
qed

lemma run_all_present:
  assumes sel: "symbols inp \<noteq> []"
    and fetched: "yf_download (symbols inp) (start_date inp) (end_date inp) = Inr all_data"
    and pres: "\<forall>s \<in> set (symbols inp). all_data s = Some (frames s)"
  shows "\<exists>pv fo fc fv fp.
           preview_data all_data (symbols inp) = Inr pv \<and>
           pv = concat (map (\<lambda>s. assign_Symbol s (frames s)) (symbols inp)) \<and>
           previews (run fmt pad yf_download inp) = [take 20 pv] \<and>
           charts (run fmt pad yf_download inp) = [fo, fc, fv, fp] \<and>
           legend fo = symbols inp \<and> legend fc = symbols inp \<and>
           legend fv = symbols inp \<and> legend fp = symbols inp \<and>
           snapshot_tables (run fmt pad yf_download inp) =
             (case traverse (snapshot_of all_data) (symbols inp) of
                Inl e \<Rightarrow> [] | Inr rows \<Rightarrow> [rows]) \<and>
           error (run fmt pad yf_download inp) =
             (case traverse (snapshot_of all_data) (symbols inp) of
                Inl e \<Rightarrow> Some e | Inr rows \<Rightarrow> None)"
proof -
  let ?pv = "concat (map (\<lambda>s. assign_Symbol s (frames s)) (symbols inp))"
  from pres have pres': "\<And>s. s \<in> set (symbols inp) \<Longrightarrow> all_data s = Some (frames s)"
    by blast
  have pv: "preview_data all_data (symbols inp) = Inr ?pv"
    by (rule preview_data_present [where frames = frames, OF sel pres'])
  from figs_present [where syms = "symbols inp" and all_data = all_data and frames = frames
      and pad = pad, OF pres] obtain fo fc fv fp where
    figs: "fig_open all_data (symbols inp) = Inr fo" "fig_close all_data (symbols inp) = Inr fc"
      "fig_vol all_data (symbols inp) = Inr fv" "fig_pct pad all_data (symbols inp) = Inr fp" and
    legs: "legend fo = symbols inp" "legend fc = symbols inp"
      "legend fv = symbols inp" "legend fp = symbols inp"
    by (elim exE conjE)
  note st = run_stages [where inp = inp and yf_download = yf_download and fmt = fmt,
      OF sel fetched pv figs]
  have shown: "previews (run fmt pad yf_download inp) = [take 20 ?pv]"
    using st(1) by (simp add: head_df_def)
  show ?thesis
    by (rule exI [of _ ?pv], rule exI [of _ fo], rule exI [of _ fc], rule exI [of _ fv],
        rule exI [of _ fp]) (intro conjI pv refl shown st(3) legs st(5) st(6))
qed

lemma snapshot_usable:
  assumes "all_data s = Some df" and "df \<noteq> []" and "Volume (last df) \<noteq> None"
  shows "\<exists>r. snapshot_of all_data s = Inr r"
  using assms by (auto simp: snapshot_of_def getitem_def iloc_last_def py_int_def)

lemma traverse_snapshot_usable:
  assumes "\<forall>s \<in> set syms. all_data s = Some (frames s) \<and> frames s \<noteq> [] \<and>
             Volume (last (frames s)) \<noteq> None"
  shows "\<exists>rows. traverse (snapshot_of all_data) syms = Inr rows"
proof -
  have "snapshot_of all_data s = Inr (projr (snapshot_of all_data s))" if "s \<in> set syms" for s
  proof -
    from assms that obtain r where "snapshot_of all_data s = Inr r"
      using snapshot_usable by blast
    then show ?thesis by simp
  qed
  then have "traverse (snapshot_of all_data) syms =
      Inr (map (\<lambda>s. projr (snapshot_of all_data s)) syms)"
    by (rule traverse_all_Inr)
  then show ?thesis ..
qed

lemma preview_blocks:
  assumes "distinct syms"
  shows "remdups_adj (map Symbol (concat (map (\<lambda>s. assign_Symbol s (frames s)) syms))) =
         filter (\<lambda>s. frames s \<noteq> []) syms"
proof -
  have "map Symbol (concat (map (\<lambda>s. assign_Symbol s (frames s)) syms)) =
        concat (map (\<lambda>s. replicate (length (frames s)) s) syms)"
    by (simp add: map_concat comp_def Symbol_assign)
  then show ?thesis
    using blocks_collapse [OF assms, of "\<lambda>s. length (frames s)"] by simp
qed

lemma run_present_outcome:
  assumes sel: "symbols inp \<noteq> []"
    and fetched: "yf_download (symbols inp) (start_date inp) (end_date inp) = Inr all_data"
    and pres: "\<forall>s \<in> set (symbols inp). all_data s \<noteq> None"
  shows "\<exists>fo fc fv fp.
           charts (run fmt pad yf_download inp) = [fo, fc, fv, fp] \<and>
           legend fo = symbols inp \<and> legend fc = symbols inp \<and>
           legend fv = symbols inp \<and> legend fp = symbols inp \<and>
           snapshot_tables (run fmt pad yf_download inp) =
             (case traverse (snapshot_of all_data) (symbols inp) of
                Inl e \<Rightarrow> [] | Inr rows \<Rightarrow> [rows]) \<and>
           error (run fmt pad yf_download inp) =
             (case traverse (snapshot_of all_data) (symbols inp) of
                Inl e \<Rightarrow> Some e | Inr rows \<Rightarrow> None)"
proof -
  from pres have pres': "\<forall>s \<in> set (symbols inp). all_data s = Some (the (all_data s))"
    by auto
  from run_all_present [where inp = inp and yf_download = yf_download and all_data = all_data
      and frames = "\<lambda>s. the (all_data s)" and fmt = fmt and pad = pad, OF sel fetched pres']
  obtain pv fo fc fv fp where
    ch: "charts (run fmt pad yf_download inp) = [fo, fc, fv, fp]" and
    legs: "legend fo = symbols inp" "legend fc = symbols inp"
      "legend fv = symbols inp" "legend fp = symbols inp" and
    tabs: "snapshot_tables (run fmt pad yf_download inp) =
             (case traverse (snapshot_of all_data) (symbols inp) of
                Inl e \<Rightarrow> [] | Inr rows \<Rightarrow> [rows])" and
    err: "error (run fmt pad yf_download inp) =
             (case traverse (snapshot_of all_data) (symbols inp) of
                Inl e \<Rightarrow> Some e | Inr rows \<Rightarrow> None)"
    by (elim exE conjE)
  show ?thesis
    by (rule exI [of _ fo], rule exI [of _ fc], rule exI [of _ fv], rule exI [of _ fp])
      (intro conjI ch legs tabs err)
qed

lemma run_fetch_fails:
  assumes "symbols inp \<noteq> []"
    and "yf_download (symbols inp) (start_date inp) (end_date inp) = Inl e"
  shows "error (run fmt pad yf_download inp) = Some e"
    and "snapshot_tables (run fmt pad yf_download inp) = []"
    and "charts (run fmt pad yf_download inp) = []"
    and "previews (run fmt pad yf_download inp) = []"
    and "downloads (run fmt pad yf_download inp) = []"
  using assms
  by (simp_all add: run_def Let_def snapshot_tables_def charts_def previews_def downloads_def)

lemma fetched_run_all_or_nothing:
  assumes sel: "symbols inp \<noteq> []"
    and fetched: "yf_download (symbols inp) (start_date inp) (end_date inp) = Inr all_data"
  shows "(\<forall>s \<in> set (symbols inp). all_data s = Some [] \<longrightarrow>
            error (run fmt pad yf_download inp) \<noteq> None \<and>
            snapshot_tables (run fmt pad yf_download inp) = []) \<and>
         ((\<forall>s \<in> set (symbols inp).
              \<exists>df. all_data s = Some df \<and> (df = [] \<or> Volume (last df) \<noteq> None)) \<and>
          (\<exists>s \<in> set (symbols inp). all_data s = Some []) \<longrightarrow>
            error (run fmt pad yf_download inp) = Some IndexError) \<and>
         (error (run fmt pad yf_download inp) = None \<longrightarrow>
            (\<exists>fo fc fv fp.
               charts (run fmt pad yf_download inp) = [fo, fc, fv, fp] \<and>
               legend fo = symbols inp \<and> legend fc = symbols inp \<and>
               legend fv = symbols inp \<and> legend fp = symbols inp) \<and>
            map (map snap_Symbol) (snapshot_tables (run fmt pad yf_download inp)) =
              [symbols inp] \<and>
            (\<forall>s \<in> set (symbols inp). \<exists>df. all_data s = Some df \<and> df \<noteq> [])) \<and>
         (error (run fmt pad yf_download inp) \<noteq> None \<longrightarrow>
            snapshot_tables (run fmt pad yf_download inp) = [])"
proof -
  let ?r = "run fmt pad yf_download inp"
  let ?tr = "traverse (snapshot_of all_data) (symbols inp)"
  note absent = run_absent [where inp = inp and yf_download = yf_download and fmt = fmt
      and pad = pad, OF sel fetched]
  note present = run_present_outcome [where inp = inp and yf_download = yf_download
      and fmt = fmt and pad = pad, OF sel fetched]
  have D: "error ?r \<noteq> None \<longrightarrow> snapshot_tables ?r = []"
  proof (cases "\<forall>s \<in> set (symbols inp). all_data s \<noteq> None")
    case True
    from present [OF True] show ?thesis
      by (auto split: sum.splits)
  next
    case False
    then obtain s where "s \<in> set (symbols inp)" "all_data s = None" by blast
    from absent(5) [OF this] show ?thesis by simp
  qed
  have A: "\<forall>s \<in> set (symbols inp). all_data s = Some [] \<longrightarrow>
            error ?r \<noteq> None \<and> snapshot_tables ?r = []"
  proof (intro ballI impI)
    fix s assume s: "s \<in> set (symbols inp)" and e: "all_data s = Some []"
    have "error ?r \<noteq> None"
    proof (cases "\<forall>s \<in> set (symbols inp). all_data s \<noteq> None")
      case True
      from traverse_Inl_member [where f = "snapshot_of all_data" and a = s, OF s snapshot_of_empty [of all_data s, OF e]]
      obtain e' where "?tr = Inl e'" by blast
      with present [OF True] show ?thesis by auto
    next
      case False
      then obtain s' where "s' \<in> set (symbols inp)" "all_data s' = None" by blast
      from absent(1) [OF this] show ?thesis by simp
    qed
    with D show "error ?r \<noteq> None \<and> snapshot_tables ?r = []" by blast
  qed
  have B: "(\<forall>s \<in> set (symbols inp).
              \<exists>df. all_data s = Some df \<and> (df = [] \<or> Volume (last df) \<noteq> None)) \<and>
          (\<exists>s \<in> set (symbols inp). all_data s = Some []) \<longrightarrow>
            error ?r = Some IndexError"
  proof (intro impI, elim conjE bexE)
    fix s
    assume all: "\<forall>s \<in> set (symbols inp).
              \<exists>df. all_data s = Some df \<and> (df = [] \<or> Volume (last df) \<noteq> None)"
      and s: "s \<in> set (symbols inp)" and e: "all_data s = Some []"
    from all have pres: "\<forall>s \<in> set (symbols inp). all_data s \<noteq> None" by auto
    from traverse_Inl_member [where f = "snapshot_of all_data" and a = s, OF s snapshot_of_empty [of all_data s, OF e]]
    obtain e' where tr: "?tr = Inl e'" by blast
    then have "list_ex (\<lambda>a. snapshot_of all_data a = Inl e') (symbols inp)"
      by (rule traverse_Inl_ex)
    then obtain a where a: "a \<in> set (symbols inp)" "snapshot_of all_data a = Inl e'"
      by (auto simp: list_ex_iff)
    from all a(1) obtain df where df: "all_data a = Some df"
      "df = [] \<or> Volume (last df) \<noteq> None" by blast
    have "e' = IndexError"
    proof (cases "df = []")
      case True
      with df a(2) show ?thesis by (simp add: snapshot_of_empty)
    next
      case False
      with df snapshot_usable [of all_data a df] a(2) show ?thesis by auto
    qed
    with tr present [OF pres] show "error ?r = Some IndexError" by auto
  qed
  have C: "error ?r = None \<longrightarrow>
            (\<exists>fo fc fv fp.
               charts ?r = [fo, fc, fv, fp] \<and>
               legend fo = symbols inp \<and> legend fc = symbols inp \<and>
               legend fv = symbols inp \<and> legend fp = symbols inp) \<and>
            map (map snap_Symbol) (snapshot_tables ?r) = [symbols inp] \<and>
            (\<forall>s \<in> set (symbols inp). \<exists>df. all_data s = Some df \<and> df \<noteq> [])"
  proof
    assume ok: "error ?r = None"
    have pres: "\<forall>s \<in> set (symbols inp). all_data s \<noteq> None"
    proof (rule ccontr)
      assume "\<not> ?thesis"
      then obtain s where "s \<in> set (symbols inp)" "all_data s = None" by blast
      from absent(1) [OF this] ok show False by simp
    qed
    from present [OF pres] obtain fo fc fv fp where
      ch: "charts ?r = [fo, fc, fv, fp]" and
      legs: "legend fo = symbols inp" "legend fc = symbols inp"
        "legend fv = symbols inp" "legend fp = symbols inp" and
      tabs: "snapshot_tables ?r = (case ?tr of Inl e \<Rightarrow> [] | Inr rows \<Rightarrow> [rows])" and
      err: "error ?r = (case ?tr of Inl e \<Rightarrow> Some e | Inr rows \<Rightarrow> None)"
      by (elim exE conjE)
    from ok err obtain rows where tr: "?tr = Inr rows"
      by (cases ?tr) simp_all
    have c1: "\<exists>fo fc fv fp.
               charts ?r = [fo, fc, fv, fp] \<and>
               legend fo = symbols inp \<and> legend fc = symbols inp \<and>
               legend fv = symbols inp \<and> legend fp = symbols inp"
      by (rule exI [of _ fo], rule exI [of _ fc], rule exI [of _ fv], rule exI [of _ fp])
        (intro conjI ch legs)
    have c2: "map (map snap_Symbol) (snapshot_tables ?r) = [symbols inp]"
      using tabs tr traverse_snapshot_symbols [OF tr] by simp
    have c3: "\<forall>s \<in> set (symbols inp). \<exists>df. all_data s = Some df \<and> df \<noteq> []"
    proof
      fix s assume "s \<in> set (symbols inp)"
      moreover from tr have "list_all2 (\<lambda>s r. snapshot_of all_data s = Inr r) (symbols inp) rows"
        by (rule traverse_Inr_all)
      ultimately obtain r where "snapshot_of all_data s = Inr r"
        by (auto simp: list_all2_conv_all_nth in_set_conv_nth)
      from snapshot_of_Inr [OF this] show "\<exists>df. all_data s = Some df \<and> df \<noteq> []" by blast
    qed
    from c1 c2 c3 show "(\<exists>fo fc fv fp.
               charts ?r = [fo, fc, fv, fp] \<and>
               legend fo = symbols inp \<and> legend fc = symbols inp \<and>
               legend fv = symbols inp \<and> legend fp = symbols inp) \<and>
            map (map snap_Symbol) (snapshot_tables ?r) = [symbols inp] \<and>
            (\<forall>s \<in> set (symbols inp). \<exists>df. all_data s = Some df \<and> df \<noteq> [])"
      by (intro conjI)
  qed
  show ?thesis by (intro conjI A B C D)
qed

section \<open>Properties of a run\<close>

text \<open>
  C1, as amended.  When every selected symbol has a fetched series that is not empty and
  whose last row has a number as its volume, the run renders one snapshot table; the table
  lists the selected symbols in order, and for every selected symbol (the selection has no
  duplicates) it has exactly one row, whose Latest Price, Opening Price, High and Low are
  the close, open, high and low of the last row of that symbol's series rounded to two
  decimals, and whose Volume is \<^verbatim>\<open>int\<close> of that row's volume.
\<close>

theorem snapshot_rows_of_complete_run:
  assumes sel: "symbols inp \<noteq> []"
    and fetched: "yf_download (symbols inp) (start_date inp) (end_date inp) = Inr all_data"
    and usable: "\<forall>s \<in> set (symbols inp).
                   all_data s = Some (frames s) \<and> frames s \<noteq> [] \<and>
                   Volume (last (frames s)) \<noteq> None"
    and dist: "distinct (symbols inp)"
  shows "\<exists>tbl. snapshot_tables (run fmt pad yf_download inp) = [tbl] \<and>
           map snap_Symbol tbl = symbols inp \<and>
           (\<forall>s \<in> set (symbols inp).
              \<exists>r. filter (\<lambda>r. snap_Symbol r = s) tbl = [r] \<and>
                  snap_Latest_Price r = py_round2 (Close (last (frames s))) \<and>
                  snap_Opening_Price r = py_round2 (Open (last (frames s))) \<and>
                  snap_High r = py_round2 (High (last (frames s))) \<and>
                  snap_Low r = py_round2 (Low (last (frames s))) \<and>
                  py_int (Volume (last (frames s))) = Inr (snap_Volume r))"
proof -
  let ?g = "\<lambda>s. projr (snapshot_of all_data s)"
  have each: "snapshot_of all_data s = Inr (?g s)" if "s \<in> set (symbols inp)" for s
  proof -
    from usable that have "all_data s = Some (frames s)" "frames s \<noteq> []"
      "Volume (last (frames s)) \<noteq> None" by auto
    then obtain r where "snapshot_of all_data s = Inr r" using snapshot_usable by blast
    then show ?thesis by simp
  qed
  then have tr: "traverse (snapshot_of all_data) (symbols inp) = Inr (map ?g (symbols inp))"
    by (rule traverse_all_Inr)
  from usable have pres: "\<forall>s \<in> set (symbols inp). all_data s = Some (frames s)" by blast
  from run_all_present [where inp = inp and yf_download = yf_download and all_data = all_data
      and frames = frames and fmt = fmt and pad = pad, OF sel fetched pres]
  have "snapshot_tables (run fmt pad yf_download inp) =
          (case traverse (snapshot_of all_data) (symbols inp) of
             Inl e \<Rightarrow> [] | Inr rows \<Rightarrow> [rows])"
    by (elim exE conjE)
  with tr have tbl: "snapshot_tables (run fmt pad yf_download inp) = [map ?g (symbols inp)]"
    by simp
  have syms: "map snap_Symbol (map ?g (symbols inp)) = symbols inp"
    by (rule traverse_snapshot_symbols [OF tr])
  have row: "\<exists>r. filter (\<lambda>r. snap_Symbol r = s) (map ?g (symbols inp)) = [r] \<and>
                  snap_Latest_Price r = py_round2 (Close (last (frames s))) \<and>
                  snap_Opening_Price r = py_round2 (Open (last (frames s))) \<and>
                  snap_High r = py_round2 (High (last (frames s))) \<and>
                  snap_Low r = py_round2 (Low (last (frames s))) \<and>
                  py_int (Volume (last (frames s))) = Inr (snap_Volume r)"
    if s: "s \<in> set (symbols inp)" for s
  proof -
    have sym: "snap_Symbol (?g x) = x" if "x \<in> set (symbols inp)" for x
      using each [OF that] snapshot_of_Inr by blast
    have "filter (\<lambda>r. snap_Symbol r = s) (map ?g (symbols inp)) =
          map ?g (filter (\<lambda>x. snap_Symbol (?g x) = s) (symbols inp))"
      by (simp add: filter_map comp_def)
    also have "filter (\<lambda>x. snap_Symbol (?g x) = s) (symbols inp) =
               filter (\<lambda>x. x = s) (symbols inp)"
      by (rule filter_cong) (simp_all add: sym)
    also have "\<dots> = [s]" by (rule filter_eq_distinct [OF dist s])
    finally have one: "filter (\<lambda>r. snap_Symbol r = s) (map ?g (symbols inp)) = [?g s]"
      by simp
    from usable s have fr: "all_data s = Some (frames s)" by blast
    from snapshot_of_Inr [OF each [OF s]] fr
    have "snap_Latest_Price (?g s) = py_round2 (Close (last (frames s))) \<and>
          snap_Opening_Price (?g s) = py_round2 (Open (last (frames s))) \<and>
          snap_High (?g s) = py_round2 (High (last (frames s))) \<and>
          snap_Low (?g s) = py_round2 (Low (last (frames s))) \<and>
          py_int (Volume (last (frames s))) = Inr (snap_Volume (?g s))"
      by auto
    with one show ?thesis by blast
  qed
  show ?thesis
    by (rule exI [of _ "map ?g (symbols inp)"]) (intro conjI tbl syms ballI row)
qed

theorem snapshot_rows_of_complete_run_witness:
  "symbols demo_inputs \<noteq> [] \<and>
   demo_download (symbols demo_inputs) (start_date demo_inputs) (end_date demo_inputs) =
     Inr demo_data \<and>
   demo_data ''AAPL'' = Some aapl_rows \<and> demo_data ''MSFT'' = Some msft_rows \<and>
   aapl_rows \<noteq> [] \<and> msft_rows \<noteq> [] \<and>
   Volume (last aapl_rows) = Some 1200 \<and> Volume (last msft_rows) = Some 2100 \<and>
   Close (last msft_rows) = Some (50201 / 200) \<and>
   distinct (symbols demo_inputs) \<and>
   (\<exists>tbl. snapshot_tables (run demo_format True demo_download demo_inputs) = [tbl] \<and>
      map snap_Symbol tbl = [''AAPL'', ''MSFT''] \<and>
      (\<exists>r. filter (\<lambda>r. snap_Symbol r = ''AAPL'') tbl = [r] \<and>
           snap_Latest_Price r = Some 110 \<and> snap_Opening_Price r = Some 100 \<and>
           snap_High r = Some (2221 / 20) \<and> snap_Low r = Some (199 / 2) \<and>
           snap_Volume r = 1200) \<and>
      (\<exists>r. filter (\<lambda>r. snap_Symbol r = ''MSFT'') tbl = [r] \<and>
           snap_Latest_Price r = Some 251 \<and> snap_Volume r = 2100))"
proof -
  have sel: "symbols demo_inputs \<noteq> []" by (simp add: demo_inputs_def)
  have fetched: "demo_download (symbols demo_inputs) (start_date demo_inputs)
      (end_date demo_inputs) = Inr demo_data"
    by (simp add: demo_download_def)
  have d1: "demo_data ''AAPL'' = Some aapl_rows" and d2: "demo_data ''MSFT'' = Some msft_rows"
    by (simp_all add: demo_data_def)
  have ne: "aapl_rows \<noteq> []" "msft_rows \<noteq> []"
    by (simp_all add: aapl_rows_def msft_rows_def)
  have vol: "Volume (last aapl_rows) = Some 1200" "Volume (last msft_rows) = Some 2100"
    by (simp_all add: aapl_rows_def msft_rows_def)
  have cl: "Close (last msft_rows) = Some (50201 / 200)"
    by (simp add: msft_rows_def)
  have dist: "distinct (symbols demo_inputs)" by (simp add: demo_inputs_def)
  have usable: "\<forall>s \<in> set (symbols demo_inputs).
      demo_data s = Some (demo_frames s) \<and> demo_frames s \<noteq> [] \<and>
      Volume (last (demo_frames s)) \<noteq> None"
    using ne vol by (simp add: demo_inputs_def demo_data_def demo_frames_def)
  have fa: "demo_frames ''AAPL'' = aapl_rows" and fm: "demo_frames ''MSFT'' = msft_rows"
    by (simp_all add: demo_frames_def)
  have ra: "py_round2 (Close (last aapl_rows)) = Some 110"
    "py_round2 (Open (last aapl_rows)) = Some 100"
    "py_round2 (High (last aapl_rows)) = Some (2221 / 20)"
    "py_round2 (Low (last aapl_rows)) = Some (199 / 2)"
    "py_int (Volume (last aapl_rows)) = Inr 1200"
    by code_simp+
  have rm: "py_round2 (Close (last msft_rows)) = Some 251"
    "py_int (Volume (last msft_rows)) = Inr 2100"
    by code_simp+
  from snapshot_rows_of_complete_run [where inp = demo_inputs and yf_download = demo_download
      and all_data = demo_data and frames = demo_frames and fmt = demo_format and pad = True,
      OF sel fetched usable dist]
  obtain tbl where
    t: "snapshot_tables (run demo_format True demo_download demo_inputs) = [tbl]" and
    n: "map snap_Symbol tbl = symbols demo_inputs" and
    rows: "\<forall>s \<in> set (symbols demo_inputs).
              \<exists>r. filter (\<lambda>r. snap_Symbol r = s) tbl = [r] \<and>
                  snap_Latest_Price r = py_round2 (Close (last (demo_frames s))) \<and>
                  snap_Opening_Price r = py_round2 (Open (last (demo_frames s))) \<and>
                  snap_High r = py_round2 (High (last (demo_frames s))) \<and>
                  snap_Low r = py_round2 (Low (last (demo_frames s))) \<and>
                  py_int (Volume (last (demo_frames s))) = Inr (snap_Volume r)"
    by (elim exE conjE)
  have n': "map snap_Symbol tbl = [''AAPL'', ''MSFT'']"
    using n by (simp add: demo_inputs_def)
  have "''AAPL'' \<in> set (symbols demo_inputs)" by (simp add: demo_inputs_def)
  with rows have a: "\<exists>r. filter (\<lambda>r. snap_Symbol r = ''AAPL'') tbl = [r] \<and>
           snap_Latest_Price r = Some 110 \<and> snap_Opening_Price r = Some 100 \<and>
           snap_High r = Some (2221 / 20) \<and> snap_Low r = Some (199 / 2) \<and>
           snap_Volume r = 1200"
    unfolding Ball_def by (auto simp: fa ra)
  have "''MSFT'' \<in> set (symbols demo_inputs)" by (simp add: demo_inputs_def)
  with rows have m: "\<exists>r. filter (\<lambda>r. snap_Symbol r = ''MSFT'') tbl = [r] \<and>
           snap_Latest_Price r = Some 251 \<and> snap_Volume r = 2100"
    unfolding Ball_def by (auto simp: fm rm)
  have ex: "\<exists>tbl. snapshot_tables (run demo_format True demo_download demo_inputs) = [tbl] \<and>
      map snap_Symbol tbl = [''AAPL'', ''MSFT''] \<and>
      (\<exists>r. filter (\<lambda>r. snap_Symbol r = ''AAPL'') tbl = [r] \<and>
           snap_Latest_Price r = Some 110 \<and> snap_Opening_Price r = Some 100 \<and>
           snap_High r = Some (2221 / 20) \<and> snap_Low r = Some (199 / 2) \<and>
           snap_Volume r = 1200) \<and>
      (\<exists>r. filter (\<lambda>r. snap_Symbol r = ''MSFT'') tbl = [r] \<and>
           snap_Latest_Price r = Some 251 \<and> snap_Volume r = 2100)"
    by (rule exI [of _ tbl]) (intro conjI t n' a m)
  show ?thesis by (intro conjI sel fetched d1 d2 ne vol cl dist ex)
qed

text \<open>
  C1 as stated fails.  AAPL is selected and its fetched series has two rows, but the second
  selected symbol has only NaN cells on those days (what the service returns for a ticker
  without data in the range): \<^verbatim>\<open>int(latest_row["Volume"])\<close> raises on MSFT, the script
  stops at line 141 and no snapshot table is rendered, so there is no row for AAPL either.
\<close>

theorem snapshot_row_counterexample:
  "''AAPL'' \<in> set (symbols demo_inputs) \<and>
   gap_download (symbols demo_inputs) (start_date demo_inputs) (end_date demo_inputs) =
     Inr gap_data \<and>
   gap_data ''AAPL'' = Some aapl_rows \<and> aapl_rows \<noteq> [] \<and>
   snapshot_tables (run demo_format True gap_download demo_inputs) = [] \<and>
   snapshot_tables (run demo_format False gap_download demo_inputs) = [] \<and>
   error (run demo_format True gap_download demo_inputs) = Some ValueError \<and>
   error (run demo_format False gap_download demo_inputs) = Some ValueError"
proof -
  have a: "''AAPL'' \<in> set (symbols demo_inputs)" by (simp add: demo_inputs_def)
  have b: "gap_download (symbols demo_inputs) (start_date demo_inputs) (end_date demo_inputs) =
     Inr gap_data" by (simp add: gap_download_def)
  have c: "gap_data ''AAPL'' = Some aapl_rows" by (simp add: gap_data_def)
  have d: "aapl_rows \<noteq> []" by (simp add: aapl_rows_def)
  have e: "snapshot_tables (run demo_format True gap_download demo_inputs) = []"
    by code_simp
  have f: "snapshot_tables (run demo_format False gap_download demo_inputs) = []"
    by code_simp
  have g: "error (run demo_format True gap_download demo_inputs) = Some ValueError"
    by code_simp
  have h: "error (run demo_format False gap_download demo_inputs) = Some ValueError"
    by code_simp
  show ?thesis by (intro conjI a b c d e f g h)
qed





text \<open>
  C4, as amended.  In a run with symbols selected (no duplicates) and a frame fetched for
  each, every one of the four charts has the selected symbols as its legend, in selection
  order, one trace each; in the preview table the rows of a symbol form one block, and the
  blocks follow the selection order (a symbol without rows has no block).  When moreover
  every selected symbol's series is non-empty with a numeric volume in its last row, the
  snapshot table lists the selected symbols in the same order, one row each.
\<close>

theorem symbols_once_in_order:
  assumes sel: "symbols inp \<noteq> []"
    and fetched: "yf_download (symbols inp) (start_date inp) (end_date inp) = Inr all_data"
    and pres: "\<forall>s \<in> set (symbols inp). all_data s = Some (frames s)"
    and dist: "distinct (symbols inp)"
  shows "\<exists>pv fo fc fv fp.
           preview_data all_data (symbols inp) = Inr pv \<and>
           previews (run fmt pad yf_download inp) = [take 20 pv] \<and>
           remdups_adj (map Symbol pv) = filter (\<lambda>s. frames s \<noteq> []) (symbols inp) \<and>
           charts (run fmt pad yf_download inp) = [fo, fc, fv, fp] \<and>
           legend fo = symbols inp \<and> legend fc = symbols inp \<and>
           legend fv = symbols inp \<and> legend fp = symbols inp \<and>
           ((\<forall>s \<in> set (symbols inp). frames s \<noteq> [] \<and> Volume (last (frames s)) \<noteq> None) \<longrightarrow>
            map (map snap_Symbol) (snapshot_tables (run fmt pad yf_download inp)) =
              [symbols inp])"
proof -
  from run_all_present [where inp = inp and yf_download = yf_download and all_data = all_data
      and frames = frames and fmt = fmt and pad = pad, OF sel fetched pres]
  obtain pv fo fc fv fp where
    pv: "preview_data all_data (symbols inp) = Inr pv" and
    pv_eq: "pv = concat (map (\<lambda>s. assign_Symbol s (frames s)) (symbols inp))" and
    shown: "previews (run fmt pad yf_download inp) = [take 20 pv]" and
    ch: "charts (run fmt pad yf_download inp) = [fo, fc, fv, fp]" and
    legs: "legend fo = symbols inp" "legend fc = symbols inp"
      "legend fv = symbols inp" "legend fp = symbols inp" and
    tabs: "snapshot_tables (run fmt pad yf_download inp) =
             (case traverse (snapshot_of all_data) (symbols inp) of
                Inl e \<Rightarrow> [] | Inr rows \<Rightarrow> [rows])"
    by (elim exE conjE)
  have blocks: "remdups_adj (map Symbol pv) = filter (\<lambda>s. frames s \<noteq> []) (symbols inp)"
    unfolding pv_eq by (rule preview_blocks [OF dist])
  have snap: "(\<forall>s \<in> set (symbols inp). frames s \<noteq> [] \<and> Volume (last (frames s)) \<noteq> None) \<longrightarrow>
      map (map snap_Symbol) (snapshot_tables (run fmt pad yf_download inp)) = [symbols inp]"
  proof
    assume "\<forall>s \<in> set (symbols inp). frames s \<noteq> [] \<and> Volume (last (frames s)) \<noteq> None"
    with pres have "\<forall>s \<in> set (symbols inp). all_data s = Some (frames s) \<and> frames s \<noteq> [] \<and>
        Volume (last (frames s)) \<noteq> None" by blast
    then obtain rows where tr: "traverse (snapshot_of all_data) (symbols inp) = Inr rows"
      using traverse_snapshot_usable by blast
    from traverse_snapshot_symbols [OF tr] tabs tr
    show "map (map snap_Symbol) (snapshot_tables (run fmt pad yf_download inp)) = [symbols inp]"
      by simp
  qed
  show ?thesis
    by (rule exI [of _ pv], rule exI [of _ fo], rule exI [of _ fc], rule exI [of _ fv],
        rule exI [of _ fp]) (intro conjI pv shown blocks ch legs snap)
qed

theorem symbols_once_in_order_witness:
  "symbols demo_inputs \<noteq> [] \<and>
   demo_download (symbols demo_inputs) (start_date demo_inputs) (end_date demo_inputs) =
     Inr demo_data \<and>
   demo_data ''AAPL'' = Some aapl_rows \<and> demo_data ''MSFT'' = Some msft_rows \<and>
   aapl_rows \<noteq> [] \<and> msft_rows \<noteq> [] \<and>
   Volume (last aapl_rows) = Some 1200 \<and> Volume (last msft_rows) = Some 2100 \<and>
   distinct (symbols demo_inputs) \<and>
   (\<exists>pv fo fc fv fp.
      preview_data demo_data (symbols demo_inputs) = Inr pv \<and>
      previews (run demo_format True demo_download demo_inputs) = [take 20 pv] \<and>
      remdups_adj (map Symbol pv) = [''AAPL'', ''MSFT''] \<and>
      charts (run demo_format True demo_download demo_inputs) = [fo, fc, fv, fp] \<and>
      legend fo = [''AAPL'', ''MSFT''] \<and> legend fc = [''AAPL'', ''MSFT''] \<and>
      legend fv = [''AAPL'', ''MSFT''] \<and> legend fp = [''AAPL'', ''MSFT''] \<and>
      map (map snap_Symbol) (snapshot_tables (run demo_format True demo_download demo_inputs)) =
        [[''AAPL'', ''MSFT'']])"
proof -
  have sel: "symbols demo_inputs \<noteq> []" by (simp add: demo_inputs_def)
  have fetched: "demo_download (symbols demo_inputs) (start_date demo_inputs)
      (end_date demo_inputs) = Inr demo_data"
    by (simp add: demo_download_def)
  have d1: "demo_data ''AAPL'' = Some aapl_rows" and d2: "demo_data ''MSFT'' = Some msft_rows"
    by (simp_all add: demo_data_def)
  have ne: "aapl_rows \<noteq> []" "msft_rows \<noteq> []"
    by (simp_all add: aapl_rows_def msft_rows_def)
  have vol: "Volume (last aapl_rows) = Some 1200" "Volume (last msft_rows) = Some 2100"
    by (simp_all add: aapl_rows_def msft_rows_def)
  have dist: "distinct (symbols demo_inputs)" by (simp add: demo_inputs_def)
  have pres: "\<forall>s \<in> set (symbols demo_inputs). demo_data s = Some (demo_frames s)"
    by (simp add: demo_inputs_def demo_data_def demo_frames_def)
  have usable: "\<forall>s \<in> set (symbols demo_inputs).
      demo_frames s \<noteq> [] \<and> Volume (last (demo_frames s)) \<noteq> None"
    using ne vol by (simp add: demo_inputs_def demo_frames_def)
  have syms: "symbols demo_inputs = [''AAPL'', ''MSFT'']" by (simp add: demo_inputs_def)
  have flt: "filter (\<lambda>s. demo_frames s \<noteq> []) (symbols demo_inputs) = [''AAPL'', ''MSFT'']"
    using ne by (simp add: demo_inputs_def demo_frames_def)
  from symbols_once_in_order [where inp = demo_inputs and yf_download = demo_download
      and all_data = demo_data and frames = demo_frames and fmt = demo_format and pad = True,
      OF sel fetched pres dist]
  obtain pv fo fc fv fp where
    a: "preview_data demo_data (symbols demo_inputs) = Inr pv" and
    b: "previews (run demo_format True demo_download demo_inputs) = [take 20 pv]" and
    c: "remdups_adj (map Symbol pv) = filter (\<lambda>s. demo_frames s \<noteq> []) (symbols demo_inputs)" and
    d: "charts (run demo_format True demo_download demo_inputs) = [fo, fc, fv, fp]" and
    e: "legend fo = symbols demo_inputs" "legend fc = symbols demo_inputs"
       "legend fv = symbols demo_inputs" "legend fp = symbols demo_inputs" and
    f: "(\<forall>s \<in> set (symbols demo_inputs).
           demo_frames s \<noteq> [] \<and> Volume (last (demo_frames s)) \<noteq> None) \<longrightarrow>
        map (map snap_Symbol) (snapshot_tables (run demo_format True demo_download demo_inputs)) =
          [symbols demo_inputs]"
    by (elim exE conjE)
  note c' = c [unfolded flt] and e' = e [unfolded syms]
  from f usable have f': "map (map snap_Symbol)
      (snapshot_tables (run demo_format True demo_download demo_inputs)) = [[''AAPL'', ''MSFT'']]"
    unfolding syms by blast
  have ex: "\<exists>pv fo fc fv fp.
      preview_data demo_data (symbols demo_inputs) = Inr pv \<and>
      previews (run demo_format True demo_download demo_inputs) = [take 20 pv] \<and>
      remdups_adj (map Symbol pv) = [''AAPL'', ''MSFT''] \<and>
      charts (run demo_format True demo_download demo_inputs) = [fo, fc, fv, fp] \<and>
      legend fo = [''AAPL'', ''MSFT''] \<and> legend fc = [''AAPL'', ''MSFT''] \<and>
      legend fv = [''AAPL'', ''MSFT''] \<and> legend fp = [''AAPL'', ''MSFT''] \<and>
      map (map snap_Symbol) (snapshot_tables (run demo_format True demo_download demo_inputs)) =
        [[''AAPL'', ''MSFT'']]"
    by (rule exI [of _ pv], rule exI [of _ fo], rule exI [of _ fc], rule exI [of _ fv],
        rule exI [of _ fp]) (intro conjI a b c' d e' f')
  show ?thesis by (intro conjI sel fetched d1 d2 ne vol dist ex)
qed

text \<open>
  C4 as stated fails.  MSFT and AAPL are selected, AAPL has two fetched rows and MSFT only
  NaN cells on those days.  The preview table carries the tag AAPL on two rows, one per
  day, not once; and the snapshot loop raises on MSFT at line 141, so no snapshot table is
  rendered and AAPL, which has returned rows, appears in none.
\<close>

theorem symbols_once_counterexample:
  "''AAPL'' \<in> set (symbols swapped_inputs) \<and>
   gap_download (symbols swapped_inputs) (start_date swapped_inputs) (end_date swapped_inputs) =
     Inr gap_data \<and>
   gap_data ''AAPL'' = Some aapl_rows \<and> aapl_rows \<noteq> [] \<and>
   map (map Symbol) (previews (run demo_format True gap_download swapped_inputs)) =
     [[''MSFT'', ''MSFT'', ''AAPL'', ''AAPL'']] \<and>
   snapshot_tables (run demo_format True gap_download swapped_inputs) = [] \<and>
   snapshot_tables (run demo_format False gap_download swapped_inputs) = [] \<and>
   error (run demo_format True gap_download swapped_inputs) = Some ValueError"
proof -
  have a: "''AAPL'' \<in> set (symbols swapped_inputs)" by (simp add: swapped_inputs_def)
  have b: "gap_download (symbols swapped_inputs) (start_date swapped_inputs)
      (end_date swapped_inputs) = Inr gap_data" by (simp add: gap_download_def)
  have c: "gap_data ''AAPL'' = Some aapl_rows" by (simp add: gap_data_def)
  have d: "aapl_rows \<noteq> []" by (simp add: aapl_rows_def)
  have e: "map (map Symbol) (previews (run demo_format True gap_download swapped_inputs)) =
     [[''MSFT'', ''MSFT'', ''AAPL'', ''AAPL'']]"
    by code_simp
  have f: "snapshot_tables (run demo_format True gap_download swapped_inputs) = []"
    by code_simp
  have g: "snapshot_tables (run demo_format False gap_download swapped_inputs) = []"
    by code_simp
  have h: "error (run demo_format True gap_download swapped_inputs) = Some ValueError"
    by code_simp
  show ?thesis by (intro conjI a b c d e f g h)
qed

text \<open>
  C5.  When no symbol is selected the downloader is not called, the run shows exactly the
  warning that asks for a symbol, and it renders no chart, no table, no preview and no
  download button; it ends without an exception.
\<close>

theorem empty_selection_only_warns:
  assumes "symbols inp = []"
  shows "fetch_calls (run fmt pad yf_download inp) = [] \<and>
         warnings (run fmt pad yf_download inp) =
           [''Please select at least one stock symbol to view data.''] \<and>
         charts (run fmt pad yf_download inp) = [] \<and>
         snapshot_tables (run fmt pad yf_download inp) = [] \<and>
         previews (run fmt pad yf_download inp) = [] \<and>
         downloads (run fmt pad yf_download inp) = [] \<and>
         error (run fmt pad yf_download inp) = None"
  using assms
  by (simp add: run_def Let_def warnings_def charts_def snapshot_tables_def previews_def
        downloads_def)

theorem empty_selection_only_warns_witness:
  "symbols no_selection = [] \<and>
   fetch_calls (run demo_format True failing_download no_selection) = [] \<and>
   warnings (run demo_format True failing_download no_selection) =
     [''Please select at least one stock symbol to view data.''] \<and>
   charts (run demo_format True failing_download no_selection) = [] \<and>
   snapshot_tables (run demo_format True failing_download no_selection) = [] \<and>
   previews (run demo_format True failing_download no_selection) = [] \<and>
   downloads (run demo_format True failing_download no_selection) = [] \<and>
   error (run demo_format True failing_download no_selection) = None"
proof -
  have h: "symbols no_selection = []" by (simp add: no_selection_def)
  from h empty_selection_only_warns [OF h, where fmt = demo_format and pad = True
      and yf_download = failing_download]
  show ?thesis by simp
qed

text \<open>
  C6.  Take a run with symbols selected.
  \<^item> If the service returned frames and some selected symbol has a frame without rows, the
    run ends with an exception and renders no snapshot table; nothing in the script guards
    \<^verbatim>\<open>iloc[-1]\<close>.  If every selected symbol is fetched and has either no rows or a
    numeric volume in its last row, and one of them has no rows, that exception is the
    \<^verbatim>\<open>IndexError\<close> of \<^verbatim>\<open>iloc[-1]\<close>.
  \<^item> There is no partial success: a run without exception has rendered all four charts
    with every selected symbol in each legend and a snapshot table with a row for every
    selected symbol, each of which has a non-empty series; a run with an exception (from
    the service or from the script) has rendered no snapshot table at all.
\<close>

theorem empty_series_aborts:
  assumes sel: "symbols inp \<noteq> []"
  shows "(\<forall>all_data.
            yf_download (symbols inp) (start_date inp) (end_date inp) = Inr all_data \<longrightarrow>
            (\<forall>s \<in> set (symbols inp). all_data s = Some [] \<longrightarrow>
               error (run fmt pad yf_download inp) \<noteq> None \<and>
               snapshot_tables (run fmt pad yf_download inp) = []) \<and>
            ((\<forall>s \<in> set (symbols inp).
                 \<exists>df. all_data s = Some df \<and> (df = [] \<or> Volume (last df) \<noteq> None)) \<and>
             (\<exists>s \<in> set (symbols inp). all_data s = Some []) \<longrightarrow>
               error (run fmt pad yf_download inp) = Some IndexError) \<and>
            (error (run fmt pad yf_download inp) = None \<longrightarrow>
               (\<forall>s \<in> set (symbols inp). \<exists>df. all_data s = Some df \<and> df \<noteq> []))) \<and>
         (error (run fmt pad yf_download inp) = None \<longrightarrow>
            (\<exists>fo fc fv fp.
               charts (run fmt pad yf_download inp) = [fo, fc, fv, fp] \<and>
               legend fo = symbols inp \<and> legend fc = symbols inp \<and>
               legend fv = symbols inp \<and> legend fp = symbols inp) \<and>
            map (map snap_Symbol) (snapshot_tables (run fmt pad yf_download inp)) =
              [symbols inp]) \<and>
         (error (run fmt pad yf_download inp) \<noteq> None \<longrightarrow>
            snapshot_tables (run fmt pad yf_download inp) = [])"
proof -
  let ?r = "run fmt pad yf_download inp"
  let ?dl = "yf_download (symbols inp) (start_date inp) (end_date inp)"
  note fetched = fetched_run_all_or_nothing [where inp = inp and yf_download = yf_download
      and fmt = fmt and pad = pad, OF sel]
  have P1: "\<forall>all_data. ?dl = Inr all_data \<longrightarrow>
            (\<forall>s \<in> set (symbols inp). all_data s = Some [] \<longrightarrow>
               error ?r \<noteq> None \<and> snapshot_tables ?r = []) \<and>
            ((\<forall>s \<in> set (symbols inp).
                 \<exists>df. all_data s = Some df \<and> (df = [] \<or> Volume (last df) \<noteq> None)) \<and>
             (\<exists>s \<in> set (symbols inp). all_data s = Some []) \<longrightarrow>
               error ?r = Some IndexError) \<and>
            (error ?r = None \<longrightarrow>
               (\<forall>s \<in> set (symbols inp). \<exists>df. all_data s = Some df \<and> df \<noteq> []))"
  proof (intro allI impI)
    fix all_data assume f: "?dl = Inr all_data"
    from fetched [OF f]
    show "(\<forall>s \<in> set (symbols inp). all_data s = Some [] \<longrightarrow>
               error ?r \<noteq> None \<and> snapshot_tables ?r = []) \<and>
            ((\<forall>s \<in> set (symbols inp).
                 \<exists>df. all_data s = Some df \<and> (df = [] \<or> Volume (last df) \<noteq> None)) \<and>
             (\<exists>s \<in> set (symbols inp). all_data s = Some []) \<longrightarrow>
               error ?r = Some IndexError) \<and>
            (error ?r = None \<longrightarrow>
               (\<forall>s \<in> set (symbols inp). \<exists>df. all_data s = Some df \<and> df \<noteq> []))"
      by (elim conjE) (intro conjI impI; simp)
  qed
  have P23: "(error ?r = None \<longrightarrow>
            (\<exists>fo fc fv fp.
               charts ?r = [fo, fc, fv, fp] \<and>
               legend fo = symbols inp \<and> legend fc = symbols inp \<and>
               legend fv = symbols inp \<and> legend fp = symbols inp) \<and>
            map (map snap_Symbol) (snapshot_tables ?r) = [symbols inp]) \<and>
         (error ?r \<noteq> None \<longrightarrow> snapshot_tables ?r = [])"
  proof (cases ?dl)
    case (Inl e)
    from run_fetch_fails(1,2) [where inp = inp and yf_download = yf_download and fmt = fmt
        and pad = pad, OF sel Inl]
    show ?thesis by simp
  next
    case (Inr all_data)
    from fetched [OF Inr] show ?thesis
      by (elim conjE) (intro conjI impI; simp)
  qed
  from P1 P23 show ?thesis by (intro conjI) simp_all
qed


theorem empty_series_aborts_witness:
  "symbols demo_inputs \<noteq> [] \<and>
   empty_download (symbols demo_inputs) (start_date demo_inputs) (end_date demo_inputs) =
     Inr empty_data \<and>
   empty_data ''AAPL'' = Some [] \<and> empty_data ''MSFT'' = Some [] \<and>
   error (run demo_format True empty_download demo_inputs) = Some IndexError \<and>
   snapshot_tables (run demo_format True empty_download demo_inputs) = [] \<and>
   demo_download (symbols demo_inputs) (start_date demo_inputs) (end_date demo_inputs) =
     Inr demo_data \<and>
   error (run demo_format True demo_download demo_inputs) = None \<and>
   map (map snap_Symbol) (snapshot_tables (run demo_format True demo_download demo_inputs)) =
     [[''AAPL'', ''MSFT'']]"
proof -
  have sel: "symbols demo_inputs \<noteq> []" by (simp add: demo_inputs_def)
  have fe: "empty_download (symbols demo_inputs) (start_date demo_inputs)
      (end_date demo_inputs) = Inr empty_data"
    by (simp add: empty_download_def)
  have fd: "demo_download (symbols demo_inputs) (start_date demo_inputs)
      (end_date demo_inputs) = Inr demo_data"
    by (simp add: demo_download_def)
  have e1: "empty_data ''AAPL'' = Some []" and e2: "empty_data ''MSFT'' = Some []"
    by (simp_all add: empty_data_def)
  have syms: "symbols demo_inputs = [''AAPL'', ''MSFT'']" by (simp add: demo_inputs_def)
  have all: "\<forall>s \<in> set (symbols demo_inputs).
      \<exists>df. empty_data s = Some df \<and> (df = [] \<or> Volume (last df) \<noteq> None)"
    by (simp add: syms empty_data_def)
  have some: "\<exists>s \<in> set (symbols demo_inputs). empty_data s = Some []"
    by (rule bexI [of _ "''AAPL''"]) (simp_all add: syms empty_data_def)
  note E = empty_series_aborts [where inp = demo_inputs and yf_download = empty_download
      and fmt = demo_format and pad = True, OF sel]
  from E have "empty_download (symbols demo_inputs) (start_date demo_inputs)
        (end_date demo_inputs) = Inr empty_data \<longrightarrow>
      ((\<forall>s \<in> set (symbols demo_inputs).
           \<exists>df. empty_data s = Some df \<and> (df = [] \<or> Volume (last df) \<noteq> None)) \<and>
       (\<exists>s \<in> set (symbols demo_inputs). empty_data s = Some []) \<longrightarrow>
         error (run demo_format True empty_download demo_inputs) = Some IndexError)"
    by (elim conjE allE [of _ empty_data]) (intro impI; simp)
  with fe all some have a: "error (run demo_format True empty_download demo_inputs) =
      Some IndexError" by simp
  with E have b: "snapshot_tables (run demo_format True empty_download demo_inputs) = []"
    by simp
  note D = empty_series_aborts [where inp = demo_inputs and yf_download = demo_download
      and fmt = demo_format and pad = True, OF sel]
  have c: "error (run demo_format True demo_download demo_inputs) = None"
    by code_simp
  from D c have "map (map snap_Symbol)
      (snapshot_tables (run demo_format True demo_download demo_inputs)) = [symbols demo_inputs]"
    by simp
  then have d: "map (map snap_Symbol)
      (snapshot_tables (run demo_format True demo_download demo_inputs)) = [[''AAPL'', ''MSFT'']]"
    unfolding syms .
  show ?thesis by (intro conjI sel fe e1 e2 a b fd c d)
qed

text \<open>
  C7.  The trace of a run is determined by the selected symbols, the date range and what
  the service answers to that one request: two runs that agree on these produce the same
  preview, CSV, charts and snapshot table, whatever else differs (the other inputs, or the
  service's answers to other requests).
\<close>

theorem rerun_same_outputs:
  assumes "symbols i1 = symbols i2" and "start_date i1 = start_date i2"
    and "end_date i1 = end_date i2"
    and "dl1 (symbols i1) (start_date i1) (end_date i1) =
         dl2 (symbols i2) (start_date i2) (end_date i2)"
  shows "run fmt pad dl1 i1 = run fmt pad dl2 i2"
  using assms by (simp add: run_def Let_def split: sum.splits)

theorem rerun_same_outputs_witness:
  "symbols demo_inputs = symbols (demo_inputs\<lparr>refresh := True\<rparr>) \<and>
   demo_download (symbols demo_inputs) (start_date demo_inputs) (end_date demo_inputs) =
   other_download (symbols demo_inputs) (start_date demo_inputs) (end_date demo_inputs) \<and>
   demo_download [] 0 0 \<noteq> other_download [] 0 0 \<and>
   run demo_format True demo_download demo_inputs =
   run demo_format True other_download (demo_inputs\<lparr>refresh := True\<rparr>)"
proof -
  have h: "demo_download (symbols demo_inputs) (start_date demo_inputs) (end_date demo_inputs) =
      other_download (symbols (demo_inputs\<lparr>refresh := True\<rparr>))
        (start_date (demo_inputs\<lparr>refresh := True\<rparr>)) (end_date (demo_inputs\<lparr>refresh := True\<rparr>))"
    by (simp add: demo_download_def other_download_def demo_inputs_def)
  have "run demo_format True demo_download demo_inputs =
        run demo_format True other_download (demo_inputs\<lparr>refresh := True\<rparr>)"
    by (rule rerun_same_outputs [where ?i1.0 = demo_inputs
          and ?i2.0 = "demo_inputs\<lparr>refresh := True\<rparr>" and ?dl1.0 = demo_download
          and ?dl2.0 = other_download, OF _ _ _ h]) simp_all
  then show ?thesis
    by (simp add: demo_download_def other_download_def demo_inputs_def)
qed



text \<open>
  C9.  The state of the theme checkbox does not reach any output: two runs that differ
  only in \<open>dark_mode\<close> have the same trace, that is the same download call, the same
  elements (preview, CSV, charts, snapshot table) and the same end.
\<close>

theorem theme_toggle_no_effect:
  "run fmt pad yf_download (inp\<lparr>dark_mode := b\<rparr>) = run fmt pad yf_download inp"
  by (simp add: run_def Let_def split: sum.splits)

theorem theme_toggle_no_effect_witness:
  "run demo_format True demo_download (demo_inputs\<lparr>dark_mode := True\<rparr>) =
   run demo_format True demo_download demo_inputs \<and>
   dark_mode (demo_inputs\<lparr>dark_mode := True\<rparr>) \<noteq> dark_mode demo_inputs"
  using theme_toggle_no_effect [where fmt = demo_format and pad = True
      and yf_download = demo_download and inp = demo_inputs and b = True]
  by (simp add: demo_inputs_def)

text \<open>
  C10.  The value of the refresh button is not consulted: two runs that differ only in
  \<open>refresh\<close> have the same trace.
\<close>

theorem refresh_value_unused:
  "run fmt pad yf_download (inp\<lparr>refresh := b\<rparr>) = run fmt pad yf_download inp"
  by (simp add: run_def Let_def split: sum.splits)

theorem refresh_value_unused_witness:
  "run demo_format True demo_download (demo_inputs\<lparr>refresh := True\<rparr>) =
   run demo_format True demo_download demo_inputs \<and>
   refresh (demo_inputs\<lparr>refresh := True\<rparr>) \<noteq> refresh demo_inputs"
  using refresh_value_unused [where fmt = demo_format and pad = True
      and yf_download = demo_download and inp = demo_inputs and b = True]
  by (simp add: demo_inputs_def)

end
